theory Spec2Isabelle
  imports Complex_Main "HOL-Library.Char_ord" "HOL-Library.List_Lexorder"
begin

section \<open>Numbers and vectors\<close>

text \<open>
  The program computes with JavaScript numbers. They are embedded as mathematical reals
  (timestamps from \<^verbatim>\<open>Date.now()\<close>, whole milliseconds, as integers), so every statement
  below is about the arithmetic the code writes down, free of rounding.

  \<^verbatim>\<open>Vector3\<close> and \<^verbatim>\<open>Matrix\<close> come from the rendering library the sources import. The
  operations the sources call are written out with the library's meaning: \<^verbatim>\<open>normalize\<close>
  (here \<open>normalize_v\<close>, as \<^verbatim>\<open>length\<close> is \<open>length_v\<close>) leaves a vector of length 0 (or 1)
  as it is and otherwise scales by the inverse length;
  \<^verbatim>\<open>Matrix.RotationAxis\<close> normalises its axis and builds the rotation about it;
  \<^verbatim>\<open>TransformCoordinates\<close> and \<^verbatim>\<open>TransformNormal\<close> multiply a row vector by the matrix
  (for a rotation matrix the homogeneous row and column are those of the identity, so the
  matrix is kept as its three rows).
\<close>

datatype Vector3 = Vector3 (vx: real) (vy: real) (vz: real)

definition Zero :: Vector3 where
  "Zero = Vector3 0 0 0"

definition add :: "Vector3 \<Rightarrow> Vector3 \<Rightarrow> Vector3" where
  "add a b = Vector3 (vx a + vx b) (vy a + vy b) (vz a + vz b)"

definition subtract :: "Vector3 \<Rightarrow> Vector3 \<Rightarrow> Vector3" where
  "subtract a b = Vector3 (vx a - vx b) (vy a - vy b) (vz a - vz b)"

definition scale :: "Vector3 \<Rightarrow> real \<Rightarrow> Vector3" where
  "scale v k = Vector3 (vx v * k) (vy v * k) (vz v * k)"

definition length_v :: "Vector3 \<Rightarrow> real" where
  "length_v v = sqrt (vx v * vx v + vy v * vy v + vz v * vz v)"

definition normalize_v :: "Vector3 \<Rightarrow> Vector3" where
  "normalize_v v =
     (let len = length_v v in if len = 0 \<or> len = 1 then v else scale v (1 / len))"

definition Cross :: "Vector3 \<Rightarrow> Vector3 \<Rightarrow> Vector3" where
  "Cross a b = Vector3 (vy a * vz b - vz a * vy b)
                       (vz a * vx b - vx a * vz b)
                       (vx a * vy b - vy a * vx b)"

definition Dot :: "Vector3 \<Rightarrow> Vector3 \<Rightarrow> real" where
  "Dot a b = vx a * vx b + vy a * vy b + vz a * vz b"

datatype Matrix = Matrix Vector3 Vector3 Vector3

definition RotationAxis :: "Vector3 \<Rightarrow> real \<Rightarrow> Matrix" where
  "RotationAxis axis0 angle =
     (let s = sin (- angle); c = cos (- angle); c1 = 1 - c;
          axis = normalize_v axis0;
          ax = vx axis; ay = vy axis; az = vz axis
      in Matrix
           (Vector3 (ax * ax * c1 + c) (ax * ay * c1 - az * s) (ax * az * c1 + ay * s))
           (Vector3 (ay * ax * c1 + az * s) (ay * ay * c1 + c) (ay * az * c1 - ax * s))
           (Vector3 (az * ax * c1 - ay * s) (az * ay * c1 + ax * s) (az * az * c1 + c)))"

fun TransformCoordinates :: "Vector3 \<Rightarrow> Matrix \<Rightarrow> Vector3" where
  "TransformCoordinates v (Matrix r0 r1 r2) =
     Vector3 (vx v * vx r0 + vy v * vx r1 + vz v * vx r2)
             (vx v * vy r0 + vy v * vy r1 + vz v * vy r2)
             (vx v * vz r0 + vy v * vz r1 + vz v * vz r2)"

definition TransformNormal :: "Vector3 \<Rightarrow> Matrix \<Rightarrow> Vector3" where
  "TransformNormal v m = TransformCoordinates v m"

text \<open>
  A rotation quaternion is kept as the three axes it was built from
  (\<^verbatim>\<open>Quaternion.FromRotationMatrix\<close> of \<^verbatim>\<open>Matrix.FromXYZAxesToRef(right, up, forward)\<close>).
  Interpolating two of them (\<^verbatim>\<open>Quaternion.SlerpToRef\<close>) is a parameter of the one
  function that uses it.
\<close>

record Orientation =
  xaxis :: Vector3
  yaxis :: Vector3
  zaxis :: Vector3

definition FromXYZAxes :: "Vector3 \<Rightarrow> Vector3 \<Rightarrow> Vector3 \<Rightarrow> Orientation" where
  "FromXYZAxes r u f = \<lparr>xaxis = r, yaxis = u, zaxis = f\<rparr>"

definition Identity :: Orientation where
  "Identity = FromXYZAxes (Vector3 1 0 0) (Vector3 0 1 0) (Vector3 0 0 1)"


section \<open>Projectile.ts\<close>

text \<open>
  A scene mesh carries its name, its identity, its metadata (\<open>Some u\<close> for the object
  \<^verbatim>\<open>{ playerUUID: u }\<close> that \<^verbatim>\<open>createPlayerMesh\<close> attaches, \<open>None\<close> when there is none) and
  its geometric hit test \<^verbatim>\<open>intersectsMesh\<close> against a projectile mesh at a given position.
\<close>

record SceneMesh =
  m_id :: nat
  m_name :: string
  m_metadata :: "string option"
  m_intersectsMesh :: "Vector3 \<Rightarrow> bool"

record Scene =
  meshes :: "SceneMesh list"

record Projectile =
  p_meshId :: nat
  p_position :: Vector3
  p_isActive :: bool
  p_spawnTime :: int
  p_startDirection :: Vector3
  p_ownerUUID :: string
  p_playerScale :: real

definition speed :: real where
  "speed = 1"

definition lifespan :: int where
  "lifespan = 800"

definition Projectile_new :: "nat \<Rightarrow> int \<Rightarrow> Vector3 \<Rightarrow> Vector3 \<Rightarrow> real \<Rightarrow> string \<Rightarrow> Projectile" where
  "Projectile_new meshId now pos direction playerScale ownerUUID =
     \<lparr>p_meshId = meshId, p_position = pos, p_isActive = True, p_spawnTime = now,
      p_startDirection = direction, p_ownerUUID = ownerUUID, p_playerScale = playerScale\<rparr>"

definition Projectile_dispose :: "Projectile \<Rightarrow> Projectile" where
  "Projectile_dispose p = p\<lparr>p_isActive := False\<rparr>"

text \<open>
  The callback of \<^verbatim>\<open>this.scene.meshes.filter\<close> in \<^verbatim>\<open>update\<close>: only player meshes
  other than the projectile's own mesh, not the owner's, that intersect the projectile.
\<close>

definition hitFilter :: "Projectile \<Rightarrow> SceneMesh \<Rightarrow> bool" where
  "hitFilter p mesh =
     (if m_name mesh \<noteq> ''player'' \<or> m_id mesh = p_meshId p then False
      else if m_metadata mesh = Some (p_ownerUUID p) then False
      else m_intersectsMesh mesh (p_position p))"

text \<open>
  \<^verbatim>\<open>Projectile.update()\<close> at time \<open>now\<close>: the returned boolean, the projectile afterwards,
  and the mesh handed to the \<^verbatim>\<open>onHit\<close> callback, if the callback fires.
\<close>

definition Projectile_update ::
    "Scene \<Rightarrow> int \<Rightarrow> Projectile \<Rightarrow> bool \<times> Projectile \<times> SceneMesh option" where
  "Projectile_update scene now p =
     (if \<not> p_isActive p then (False, p, None)
      else if now - p_spawnTime p > lifespan then (False, Projectile_dispose p, None)
      else
        let toPlanetCenter = normalize_v (subtract Zero (p_position p));
            orbitDirection = normalize_v (Cross (p_startDirection p) toPlanetCenter);
            rotationMatrix = RotationAxis orbitDirection (speed * 0.016);
            newPosition = TransformCoordinates (p_position p) rotationMatrix;
            p1 = p\<lparr>p_position := newPosition\<rparr>;
            hits = filter (hitFilter p1) (meshes scene)
        in (case hits of
              [] \<Rightarrow> (True, p1, None)
            | h # _ \<Rightarrow> (False, Projectile_dispose p1, Some h)))"


section \<open>Player\<close>

text \<open>
  The fields of the class that movement, physics, interpolation and shooting read or
  write; \<open>position\<close>, \<open>rotationQuaternion\<close> and \<open>scaling\<close> are those of the player's
  mesh, \<open>frags\<close> counts the calls of \<^verbatim>\<open>onFragCallback\<close>, and \<open>hasMultiplayerManager\<close>
  tells whether a manager has been set. \<open>worldMatrix\<close> is the mesh's world matrix as the
  engine has it cached (its three rows of rotation and scale): the engine computes it
  from scaling, quaternion and position once per render id, and the methods of the class
  only read it. The astronaut model and the particle systems only draw the player and
  are left out.
\<close>

record Player =
  position :: Vector3
  rotationQuaternion :: "Orientation option"
  scaling :: Vector3
  worldMatrix :: Matrix
  heightAboveSurface :: real
  verticalVelocity :: real
  jetpackActive :: bool
  fuel :: real
  hasFuel :: bool
  projectiles :: "Projectile list"
  frags :: nat
  uuid :: string
  hasMultiplayerManager :: bool
  isRemotePlayer :: bool
  targetPosition :: "Vector3 option"
  currentInterpolatedPosition :: "Vector3 option"
  previousTargetPosition :: "Vector3 option"
  targetRotation :: "Orientation option"
  currentInterpolatedRotation :: "Orientation option"
  estimatedVelocity :: "Vector3 option"
  remoteHeightAboveSurface :: real
  targetHeight :: real
  previousHeight :: real
  estimatedVerticalVelocity :: real

definition getBaseRadius :: real where
  "getBaseRadius = 4"

definition movementSpeed :: real where
  "movementSpeed = 1"

definition MAX_HEIGHT :: real where
  "MAX_HEIGHT = 3"

definition JETPACK_FORCE :: real where
  "JETPACK_FORCE = 6"

definition GRAVITY_FORCE :: real where
  "GRAVITY_FORCE = 3"

definition MAX_FUEL :: real where
  "MAX_FUEL = 100"

definition FUEL_BURN_RATE :: real where
  "FUEL_BURN_RATE = 16.67"

definition FUEL_REFILL_RATE :: real where
  "FUEL_REFILL_RATE = 12.67"

definition POSITION_INTERPOLATION_SPEED :: real where
  "POSITION_INTERPOLATION_SPEED = 15"

definition ROTATION_INTERPOLATION_SPEED :: real where
  "ROTATION_INTERPOLATION_SPEED = 10"

definition SMOOTHING_FACTOR :: real where
  "SMOOTHING_FACTOR = 0.25"

definition HEIGHT_SMOOTHING_FACTOR :: real where
  "HEIGHT_SMOOTHING_FACTOR = 0.2"

text \<open>
  \<^verbatim>\<open>mesh.forward\<close> and \<^verbatim>\<open>mesh.right\<close>: the local third and first axis, taken through
  the mesh's world matrix (\<^verbatim>\<open>getDirection\<close>) and normalised. The world matrix is the
  one \<^verbatim>\<open>getWorldMatrix()\<close> returns, as the field \<open>worldMatrix\<close> holds it.
\<close>

definition forward :: "Player \<Rightarrow> Vector3" where
  "forward s = normalize_v (TransformNormal (Vector3 0 0 1) (worldMatrix s))"

definition right :: "Player \<Rightarrow> Vector3" where
  "right s = normalize_v (TransformNormal (Vector3 1 0 0) (worldMatrix s))"

definition updateFuel :: "real \<Rightarrow> Player \<Rightarrow> Player" where
  "updateFuel deltaTime s =
     (if jetpackActive s then
        let s1 = s\<lparr>fuel := fuel s - FUEL_BURN_RATE * deltaTime\<rparr>
        in if fuel s1 \<le> 0 then s1\<lparr>fuel := 0, hasFuel := False\<rparr> else s1
      else
        let s1 = s\<lparr>fuel := fuel s + FUEL_REFILL_RATE * deltaTime\<rparr>;
            s2 = (if fuel s1 > MAX_FUEL then s1\<lparr>fuel := MAX_FUEL\<rparr> else s1)
        in if \<not> hasFuel s2 \<and> fuel s2 \<ge> MAX_FUEL * 0.1 then s2\<lparr>hasFuel := True\<rparr> else s2)"

text \<open>
  \<^verbatim>\<open>moveAlongOrbit\<close>: the position is rotated about the axis
  \<^verbatim>\<open>Cross(crossAxis, toPlanetCenter)\<close> and re-projected to the orbit radius; the
  orientation is rebuilt from the previous forward direction and the up direction.
\<close>

definition moveAlongOrbit :: "Vector3 \<Rightarrow> real \<Rightarrow> Player \<Rightarrow> Player" where
  "moveAlongOrbit crossAxis deltaTime s =
     (let toPlanetCenter = normalize_v (subtract Zero (position s));
          orbitDirection = normalize_v (Cross crossAxis toPlanetCenter);
          angle = movementSpeed * deltaTime;
          rotationMatrix = RotationAxis orbitDirection angle;
          planetRadius = getBaseRadius;
          orbitRadius = planetRadius + heightAboveSurface s;
          newPosition = TransformCoordinates (position s) rotationMatrix;
          localUp = scale toPlanetCenter (- 1);
          localForward = forward s;
          localRight = normalize_v (Cross localUp localForward);
          correctedForward = normalize_v (Cross localRight localUp)
      in s\<lparr>position := scale (normalize_v newPosition) orbitRadius,
            rotationQuaternion := Some (FromXYZAxes localRight localUp correctedForward)\<rparr>)"

definition strafeLeft :: "real \<Rightarrow> Player \<Rightarrow> Player" where
  "strafeLeft deltaTime s =
     (if isRemotePlayer s then s else moveAlongOrbit (scale (right s) (- 1)) deltaTime s)"

definition strafeRight :: "real \<Rightarrow> Player \<Rightarrow> Player" where
  "strafeRight deltaTime s =
     (if isRemotePlayer s then s else moveAlongOrbit (right s) deltaTime s)"

definition moveForward :: "real \<Rightarrow> Player \<Rightarrow> Player" where
  "moveForward deltaTime s =
     (if isRemotePlayer s then s else moveAlongOrbit (forward s) deltaTime s)"

definition moveBackward :: "real \<Rightarrow> Player \<Rightarrow> Player" where
  "moveBackward deltaTime s =
     (if isRemotePlayer s then s else moveAlongOrbit (scale (forward s) (- 1)) deltaTime s)"

definition rotate_player :: "real \<Rightarrow> Player \<Rightarrow> Player" where
  "rotate_player deltaRadians s =
     (if isRemotePlayer s then s
      else
        let toPlanetCenter = normalize_v (subtract Zero (position s));
            localUp = scale toPlanetCenter (- 1);
            rotationMatrix = RotationAxis localUp deltaRadians;
            newForward = TransformNormal (forward s) rotationMatrix;
            newRight = TransformNormal (right s) rotationMatrix
        in s\<lparr>rotationQuaternion := Some (FromXYZAxes newRight localUp newForward)\<rparr>)"

text \<open>
  The hit callback that \<^verbatim>\<open>shoot\<close> gives its projectiles: a hit on a player mesh of
  another identity calls \<^verbatim>\<open>onFragCallback\<close>, which counts a frag.
\<close>

definition onHit :: "SceneMesh \<Rightarrow> Player \<Rightarrow> Player" where
  "onHit target s =
     (if m_name target = ''player'' then
        (case m_metadata target of
           None \<Rightarrow> s
         | Some u \<Rightarrow> if u \<noteq> uuid s then s\<lparr>frags := frags s + 1\<rparr> else s)
      else s)"

text \<open>
  \<^verbatim>\<open>this.projectiles.filter(projectile => projectile.update())\<close>: every projectile is
  updated in turn, its hit (if any) is delivered, and those that return false are dropped.
\<close>

fun updateProjectiles :: "Scene \<Rightarrow> int \<Rightarrow> Projectile list \<Rightarrow> Player \<Rightarrow> Projectile list \<times> Player" where
  "updateProjectiles scene now [] s = ([], s)"
| "updateProjectiles scene now (p # ps) s =
     (case Projectile_update scene now p of
        (alive, p', hit) \<Rightarrow>
          (case updateProjectiles scene now ps
                  (case hit of None \<Rightarrow> s | Some target \<Rightarrow> onHit target s) of
             (rest, s') \<Rightarrow> (if alive then p' # rest else rest, s')))"

text \<open>The height block of \<^verbatim>\<open>updateRemoteInterpolation\<close>.\<close>

definition interpolateHeight :: "real \<Rightarrow> Player \<Rightarrow> Player" where
  "interpolateHeight deltaTime s =
     (let heightDiff = targetHeight s - remoteHeightAboveSurface s
      in if \<bar>heightDiff\<bar> > 0.001 then
           let heightDelta = heightDiff * HEIGHT_SMOOTHING_FACTOR;
               predictedHeight = heightDelta + estimatedVerticalVelocity s * deltaTime * 0.5;
               h = remoteHeightAboveSurface s + predictedHeight
           in s\<lparr>remoteHeightAboveSurface := max 0.60 (min h 3)\<rparr>
         else s)"

text \<open>
  The vector that \<^verbatim>\<open>updateRemoteInterpolation\<close> adds to the interpolated position:
  the smoothed offset to the target, plus the velocity prediction, limited in length to
  \<^verbatim>\<open>maxPositionDelta\<close>.
\<close>

definition moveVector :: "real \<Rightarrow> Vector3 \<Rightarrow> Vector3 option \<Rightarrow> Vector3" where
  "moveVector maxPositionDelta toTarget estVel =
     (let smoothingAmount = min 1.0 SMOOTHING_FACTOR;
          mv0 = scale toTarget smoothingAmount;
          mv1 = (case estVel of
                   None \<Rightarrow> mv0
                 | Some v \<Rightarrow> if length_v v > 0.001 then add mv0 (scale v 0.2) else mv0)
      in if length_v mv1 > maxPositionDelta
         then scale (normalize_v mv1) maxPositionDelta else mv1)"

text \<open>The position block, for a target and a current interpolated position.\<close>

definition interpolatePosition :: "real \<Rightarrow> Vector3 \<Rightarrow> Vector3 \<Rightarrow> Player \<Rightarrow> Player" where
  "interpolatePosition deltaTime target cur s =
     (let maxPositionDelta = POSITION_INTERPOLATION_SPEED * deltaTime;
          toTarget = subtract target cur;
          distanceToTarget = length_v toTarget
      in if distanceToTarget > 0.0001 then
           let mv = moveVector maxPositionDelta toTarget (estimatedVelocity s);
               moved = add cur mv;
               planetRadius = getBaseRadius;
               targetDistance = planetRadius + remoteHeightAboveSurface s;
               newCur = scale (normalize_v moved) targetDistance
           in s\<lparr>currentInterpolatedPosition := Some newCur, position := newCur\<rparr>
         else s)"

text \<open>The rotation block; \<open>slerp\<close> stands for \<^verbatim>\<open>Quaternion.SlerpToRef\<close>.\<close>

definition interpolateRotation ::
    "(Orientation \<Rightarrow> Orientation \<Rightarrow> real \<Rightarrow> Orientation) \<Rightarrow> real \<Rightarrow> Player \<Rightarrow> Player" where
  "interpolateRotation slerp deltaTime s =
     (case (currentInterpolatedRotation s, targetRotation s) of
        (Some cur, Some tgt) \<Rightarrow>
          let rotationFactor = min (ROTATION_INTERPOLATION_SPEED * deltaTime) 1;
              r = slerp cur tgt rotationFactor
          in s\<lparr>currentInterpolatedRotation := Some r, rotationQuaternion := Some r\<rparr>
      | _ \<Rightarrow> s)"

definition updateRemoteInterpolation ::
    "(Orientation \<Rightarrow> Orientation \<Rightarrow> real \<Rightarrow> Orientation) \<Rightarrow> real \<Rightarrow> Player \<Rightarrow> Player" where
  "updateRemoteInterpolation slerp deltaTime s =
     (case targetPosition s of
        None \<Rightarrow> s
      | Some target \<Rightarrow>
          let cur = (case currentInterpolatedPosition s of
                       None \<Rightarrow> position s
                     | Some c \<Rightarrow> c);
              s1 = s\<lparr>currentInterpolatedPosition := Some cur\<rparr>;
              s2 = (if targetRotation s1 \<noteq> None \<and> currentInterpolatedRotation s1 = None
                    then s1\<lparr>currentInterpolatedRotation :=
                              Some (case rotationQuaternion s1 of
                                      Some q \<Rightarrow> q
                                    | None \<Rightarrow> Identity)\<rparr>
                    else s1);
              s3 = interpolateHeight deltaTime s2;
              s4 = interpolatePosition deltaTime target cur s3
          in interpolateRotation slerp deltaTime s4)"

text \<open>The clamp of \<^verbatim>\<open>updatePhysics\<close> (height between surface level and maximum).\<close>

definition clampHeight :: "Player \<Rightarrow> Player" where
  "clampHeight s =
     (if heightAboveSurface s < 0.60
      then s\<lparr>heightAboveSurface := 0.60, verticalVelocity := 0\<rparr>
      else if heightAboveSurface s > MAX_HEIGHT
      then s\<lparr>heightAboveSurface := MAX_HEIGHT, verticalVelocity := 0\<rparr>
      else s)"

text \<open>
  The vertical integration of \<^verbatim>\<open>updatePhysics\<close>, before the clamp: fuel, thrust,
  gravity, height.
\<close>

definition integrateHeight :: "real \<Rightarrow> Player \<Rightarrow> Player" where
  "integrateHeight deltaTime s =
     (let s1 = updateFuel deltaTime s;
          s2 = (if jetpackActive s1 \<and> hasFuel s1 \<and> heightAboveSurface s1 < MAX_HEIGHT
                then s1\<lparr>verticalVelocity := verticalVelocity s1 + JETPACK_FORCE * deltaTime\<rparr>
                else s1);
          s3 = s2\<lparr>verticalVelocity := verticalVelocity s2 - GRAVITY_FORCE * deltaTime\<rparr>
      in s3\<lparr>heightAboveSurface := heightAboveSurface s3 + verticalVelocity s3 * deltaTime\<rparr>)"

definition updatePhysics ::
    "(Orientation \<Rightarrow> Orientation \<Rightarrow> real \<Rightarrow> Orientation) \<Rightarrow> Scene \<Rightarrow> int \<Rightarrow> real \<Rightarrow> Player \<Rightarrow> Player" where
  "updatePhysics slerp scene now deltaTime s =
     (if isRemotePlayer s then updateRemoteInterpolation slerp deltaTime s
      else
        let s4 = clampHeight (integrateHeight deltaTime s);
            planetRadius = getBaseRadius;
            newDistance = planetRadius + heightAboveSurface s4;
            s5 = s4\<lparr>position := scale (normalize_v (position s4)) newDistance\<rparr>
        in (case updateProjectiles scene now (projectiles s5) s5 of
              (ps, s6) \<Rightarrow> s6\<lparr>projectiles := ps\<rparr>))"

text \<open>
  \<^verbatim>\<open>shoot\<close> at time \<open>now\<close>, the new projectile's mesh getting identity \<open>meshId\<close>: the
  player afterwards, and the arguments of the call to
  \<^verbatim>\<open>multiplayerManager.addProjectile\<close> (spawn position and direction), if it is made.
\<close>

definition shoot :: "nat \<Rightarrow> int \<Rightarrow> Player \<Rightarrow> Player \<times> (Vector3 \<times> Vector3) option" where
  "shoot meshId now s =
     (if isRemotePlayer s then (s, None)
      else
        let spawnPosition = add (position s) (scale (forward s) 0.5);
            projectile = Projectile_new meshId now spawnPosition (forward s)
                           (vx (scaling s)) (uuid s)
        in (s\<lparr>projectiles := projectiles s @ [projectile]\<rparr>,
            if hasMultiplayerManager s then Some (spawnPosition, forward s) else None))"

definition setAsRemotePlayer :: "Player \<Rightarrow> Player" where
  "setAsRemotePlayer s = s\<lparr>isRemotePlayer := True\<rparr>"


section \<open>MultiplayerManager\<close>

text \<open>
  The shared store holds three collections, each a list of keyed records in the order a
  snapshot enumerates them; a collection without entries does not exist
  (\<^verbatim>\<open>snapshot.exists()\<close> is false). Reads made with \<^verbatim>\<open>onlyOnce\<close> are answered from the
  collection as it stands when the call is made. \<^verbatim>\<open>console.error\<close> appends to a log.
\<close>

record PlayerData =
  pd_position :: Vector3
  pd_rotation :: Orientation
  pd_isJetpackActive :: bool
  pd_lastUpdate :: int

record ProjectileData =
  pj_id :: string
  pj_position :: Vector3
  pj_direction :: Vector3
  pj_ownerUUID :: string
  pj_createdAt :: int

record DeathEffectData =
  de_id :: string
  de_position :: Vector3
  de_createdAt :: int

record Database =
  players :: "(string \<times> PlayerData) list"
  projectilesDB :: "(string \<times> ProjectileData) list"
  deathEffects :: "(string \<times> DeathEffectData) list"

record MultiplayerManager =
  playerUUID :: string
  isHost :: bool
  lastUpdateTime :: int
  errorLog :: "string list"
  removalTimers :: "(int \<times> string) list"

definition updateInterval :: int where
  "updateInterval = 33"

text \<open>
  \<^verbatim>\<open>set(ref, value)\<close>: the record under the key is replaced, or added when absent. The
  store enumerates the children of a collection in the order of their keys (the keys of
  this program, identities and push keys, are not numbers, and compare as strings), so a
  new key goes before the first greater one.
\<close>

fun set_ref :: "string \<Rightarrow> 'a \<Rightarrow> (string \<times> 'a) list \<Rightarrow> (string \<times> 'a) list" where
  "set_ref k v [] = [(k, v)]"
| "set_ref k v ((k', v') # kvs) =
     (if k' = k then (k, v) # kvs
      else if k < k' then (k, v) # (k', v') # kvs
      else (k', v') # set_ref k v kvs)"

definition updatePlayerData ::
    "int \<Rightarrow> Player \<Rightarrow> MultiplayerManager \<times> Database \<Rightarrow> MultiplayerManager \<times> Database" where
  "updatePlayerData currentTime localPlayer mdb =
     (case mdb of (m, db) \<Rightarrow>
        if currentTime - lastUpdateTime m < updateInterval then (m, db)
        else
          let m1 = m\<lparr>lastUpdateTime := currentTime\<rparr>
          in (case rotationQuaternion localPlayer of
                None \<Rightarrow>
                  (m1\<lparr>errorLog := errorLog m1 @ [''Player mesh missing rotation quaternion!'']\<rparr>,
                   db)
              | Some q \<Rightarrow>
                  let playerData = \<lparr>pd_position = position localPlayer,
                                    pd_rotation = q,
                                    pd_isJetpackActive = jetpackActive localPlayer,
                                    pd_lastUpdate = currentTime\<rparr>
                  in (m1, db\<lparr>players := set_ref (playerUUID m1) playerData (players db)\<rparr>)))"

text \<open>
  \<^verbatim>\<open>addProjectile\<close> at time \<open>now\<close>, \<open>projectileId\<close> being the key that \<^verbatim>\<open>push\<close> returns:
  the record is written and its removal is scheduled (the time the timer fires, and the key).
\<close>

definition addProjectile ::
    "string \<Rightarrow> int \<Rightarrow> Vector3 \<Rightarrow> Vector3 \<Rightarrow> MultiplayerManager \<times> Database
       \<Rightarrow> string \<times> MultiplayerManager \<times> Database" where
  "addProjectile projectileId now pos direction mdb =
     (case mdb of (m, db) \<Rightarrow>
        let projectileData = \<lparr>pj_id = projectileId, pj_position = pos,
                              pj_direction = direction, pj_ownerUUID = playerUUID m,
                              pj_createdAt = now\<rparr>
        in (projectileId,
            m\<lparr>removalTimers := removalTimers m @ [(now + 2000, projectileId)]\<rparr>,
            db\<lparr>projectilesDB := set_ref projectileId projectileData (projectilesDB db)\<rparr>))"

text \<open>
  The two guards at the head of the loop body of the projectile listener
  (\<^verbatim>\<open>setupProjectileListeners\<close>): records of one's own and records that are too old are
  skipped.
\<close>

definition listensToProjectile :: "MultiplayerManager \<Rightarrow> int \<Rightarrow> ProjectileData \<Rightarrow> bool" where
  "listensToProjectile m currentTime projData =
     (if pj_ownerUUID projData = playerUUID m then False
      else if currentTime - pj_createdAt projData > 2000 then False
      else True)"

text \<open>
  \<^verbatim>\<open>cleanupStaleData\<close>. First the host check, the callback on the players collection
  that runs while \<^verbatim>\<open>isHost\<close> is false; then the three sweeps, each an \<^verbatim>\<open>update\<close> that
  removes the expired keys.
\<close>

definition hostCheck :: "(string \<times> PlayerData) list \<Rightarrow> MultiplayerManager \<Rightarrow> MultiplayerManager" where
  "hostCheck snapshot m =
     (if snapshot = [] then m\<lparr>isHost := True\<rparr>
      else
        let playerUUIDs = map fst snapshot
        in if length playerUUIDs = 1 \<or> hd playerUUIDs = playerUUID m
           then m\<lparr>isHost := True\<rparr> else m)"

definition sweep :: "int \<Rightarrow> Database \<Rightarrow> Database" where
  "sweep currentTime db =
     db\<lparr>players :=
          filter (\<lambda>(playerId, playerData).
                    \<not> currentTime - pd_lastUpdate playerData > 10000) (players db),
        projectilesDB :=
          filter (\<lambda>(projectileId, projectileData).
                    \<not> currentTime - pj_createdAt projectileData > 2000) (projectilesDB db),
        deathEffects :=
          filter (\<lambda>(effectId, effectData).
                    \<not> currentTime - de_createdAt effectData > 3000) (deathEffects db)\<rparr>"

definition cleanupStaleData ::
    "int \<Rightarrow> MultiplayerManager \<times> Database \<Rightarrow> MultiplayerManager \<times> Database" where
  "cleanupStaleData currentTime mdb =
     (case mdb of (m, db) \<Rightarrow>
        let m1 = (if \<not> isHost m then hostCheck (players db) m else m)
        in if \<not> isHost m1 then (m1, db) else (m1, sweep currentTime db))"

section \<open>Initial values\<close>

text \<open>
  A player as the constructor leaves it: the field initialisers of the class, with the
  identity and the spawn position and orientation (drawn at random by the source) given;
  the world matrix is the one of that orientation and of the scaling of 1.5.
\<close>

definition newPlayer :: "string \<Rightarrow> Vector3 \<Rightarrow> Orientation \<Rightarrow> Player" where
  "newPlayer u pos q =
     \<lparr>position = pos, rotationQuaternion = Some q, scaling = Vector3 1.5 1.5 1.5,
      worldMatrix = Matrix (scale (xaxis q) 1.5) (scale (yaxis q) 1.5) (scale (zaxis q) 1.5),
      heightAboveSurface = 0.60, verticalVelocity = 0, jetpackActive = False,
      fuel = 80, hasFuel = True, projectiles = [], frags = 0, uuid = u,
      hasMultiplayerManager = False, isRemotePlayer = False,
      targetPosition = None, currentInterpolatedPosition = None,
      previousTargetPosition = None, targetRotation = None,
      currentInterpolatedRotation = None, estimatedVelocity = None,
      remoteHeightAboveSurface = 0.60, targetHeight = 0.60, previousHeight = 0.60,
      estimatedVerticalVelocity = 0\<rparr>"

text \<open>
  A player spawned at \<open>(0, 0, 4.6)\<close>, with the orientation \<^verbatim>\<open>spawnRandomPosition\<close>
  computes there (up along the third axis, forward along the first).
\<close>

definition examplePlayer :: Player where
  "examplePlayer =
     newPlayer ''a'' (Vector3 0 0 4.6) (FromXYZAxes (Vector3 0 1 0) (Vector3 0 0 1) (Vector3 1 0 0))"

text \<open>
  Three remote players between samples. The first is interpolated at height 3 while its
  last sample puts it at height 0.60 on the same ray (the sender has respawned). The second
  is at its target height 1, at a distance of \<open>sqrt 2\<close> from the target, with a velocity
  estimate that points away from the target. The third is the second without a velocity
  estimate.
\<close>

definition respawnedRemote :: Player where
  "respawnedRemote =
     (newPlayer ''b'' (Vector3 0 0 7) Identity)
       \<lparr>isRemotePlayer := True,
        targetPosition := Some (Vector3 0 0 4.6),
        currentInterpolatedPosition := Some (Vector3 0 0 7),
        remoteHeightAboveSurface := 3,
        targetHeight := 0.60\<rparr>"

definition driftingRemote :: Player where
  "driftingRemote =
     (newPlayer ''b'' (Vector3 0 0 5) Identity)
       \<lparr>isRemotePlayer := True,
        targetPosition := Some (Vector3 0 1.4 4.8),
        currentInterpolatedPosition := Some (Vector3 0 0 5),
        estimatedVelocity := Some (Vector3 0 (- 8.75) (- 0.75)),
        remoteHeightAboveSurface := 1,
        targetHeight := 1\<rparr>"

definition restingRemote :: Player where
  "restingRemote = driftingRemote\<lparr>estimatedVelocity := None\<rparr>"

text \<open>
  Three more, without a velocity estimate. The first two are the third above with another
  target at the same radius: the point opposite the interpolated position, and a point
  less than 0.0001 away from it. The last is interpolated at height 0.69 below its target
  at height 0.70 on the same ray, with a vertical velocity estimate of 3.
\<close>

definition antipodalRemote :: Player where
  "antipodalRemote = restingRemote\<lparr>targetPosition := Some (Vector3 0 0 (- 5))\<rparr>"

definition nearbyRemote :: Player where
  "nearbyRemote =
     restingRemote\<lparr>targetPosition :=
       Some (Vector3 0 (1000000 / 10000000001) (49999999995 / 10000000001))\<rparr>"

definition climbingRemote :: Player where
  "climbingRemote =
     (newPlayer ''b'' (Vector3 0 0 4.69) Identity)
       \<lparr>isRemotePlayer := True,
        targetPosition := Some (Vector3 0 0 4.7),
        currentInterpolatedPosition := Some (Vector3 0 0 4.69),
        remoteHeightAboveSurface := 0.69,
        targetHeight := 0.7,
        estimatedVerticalVelocity := 3\<rparr>"

definition newManager :: "string \<Rightarrow> MultiplayerManager" where
  "newManager u =
     \<lparr>playerUUID = u, isHost = False, lastUpdateTime = 0, errorLog = [],
      removalTimers = []\<rparr>"

definition playerMesh :: "nat \<Rightarrow> string \<Rightarrow> (Vector3 \<Rightarrow> bool) \<Rightarrow> SceneMesh" where
  "playerMesh i u hit =
     \<lparr>m_id = i, m_name = ''player'', m_metadata = Some u, m_intersectsMesh = hit\<rparr>"

text \<open>
  A store with two fresh player records, \<open>''a''\<close> listed first, and one projectile record.
\<close>

definition twoPlayers :: Database where
  "twoPlayers =
     \<lparr>players =
        [(''a'', \<lparr>pd_position = Vector3 0 0 4.6, pd_rotation = Identity,
                 pd_isJetpackActive = False, pd_lastUpdate = 9000\<rparr>),
         (''b'', \<lparr>pd_position = Vector3 0 4.6 0, pd_rotation = Identity,
                 pd_isJetpackActive = False, pd_lastUpdate = 9000\<rparr>)],
      projectilesDB =
        [(''k'', \<lparr>pj_id = ''k'', pj_position = Vector3 0 0 4.6, pj_direction = Vector3 1 0 0,
                 pj_ownerUUID = ''a'', pj_createdAt = 5000\<rparr>)],
      deathEffects = []\<rparr>"


section \<open>Sample starvation\<close>

text \<open>
  The distance to the target that a tick of \<^verbatim>\<open>updateRemoteInterpolation\<close> computes
  (\<^verbatim>\<open>toTarget.length()\<close>), read off a state.
\<close>

definition distanceToTarget :: "Player \<Rightarrow> real" where
  "distanceToTarget s =
     (case (targetPosition s, currentInterpolatedPosition s) of
        (Some target, Some cur) \<Rightarrow> length_v (subtract target cur)
      | _ \<Rightarrow> 0)"

text \<open>
  A remote player at rest in height: the interpolated height has reached the target
  height, the target and the interpolated position lie at that height's radius, and the
  velocity estimate is absent or too short to be used.
\<close>

definition onTargetSphere :: "Player \<Rightarrow> bool" where
  "onTargetSphere s \<longleftrightarrow>
     (case (targetPosition s, currentInterpolatedPosition s) of
        (Some target, Some cur) \<Rightarrow>
          length_v target = getBaseRadius + targetHeight s \<and>
          length_v cur = getBaseRadius + targetHeight s
      | _ \<Rightarrow> False) \<and>
     remoteHeightAboveSurface s = targetHeight s \<and>
     (case estimatedVelocity s of None \<Rightarrow> True | Some v \<Rightarrow> length_v v \<le> 0.001)"


section \<open>Lengths\<close>

lemma length_v_nonneg: "0 \<le> length_v v"
  by (simp add: length_v_def)

lemma length_v_sq: "length_v v * length_v v = Dot v v"
  by (simp add: length_v_def Dot_def)

lemma length_v_eq_0: "length_v v = 0 \<longleftrightarrow> v = Zero"
proof
  assume "length_v v = 0"
  then have "vx v * vx v + vy v * vy v + vz v * vz v = 0"
    by (simp add: length_v_def)
  then have "vx v = 0 \<and> vy v = 0 \<and> vz v = 0"
    by (smt (verit) mult_eq_0_iff zero_le_square)
  then show "v = Zero"
    by (cases v) (simp add: Zero_def)
next
  assume "v = Zero"
  then show "length_v v = 0" by (simp add: length_v_def Zero_def)
qed

lemma length_v_scale: "length_v (scale v k) = \<bar>k\<bar> * length_v v"
proof -
  have "vx v * k * (vx v * k) + vy v * k * (vy v * k) + vz v * k * (vz v * k)
          = (k * k) * (vx v * vx v + vy v * vy v + vz v * vz v)"
    by (simp add: algebra_simps)
  then show ?thesis
    by (simp add: length_v_def scale_def real_sqrt_mult)
qed

lemma normalize_Zero: "normalize_v Zero = Zero"
  by (simp add: normalize_v_def length_v_def Zero_def)

lemma normalize_scale: "normalize_v v = scale v (1 / length_v v)"
proof (cases "length_v v = 0 \<or> length_v v = 1")
  case True
  then show ?thesis
    by (cases v) (auto simp: normalize_v_def scale_def length_v_eq_0 Zero_def)
next
  case False
  then show ?thesis by (simp add: normalize_v_def)
qed

lemma length_v_normalize: "v \<noteq> Zero \<Longrightarrow> length_v (normalize_v v) = 1"
  using length_v_nonneg [of v]
  by (simp add: normalize_scale length_v_scale length_v_eq_0)

text \<open>The re-projection: a vector that is not zero is brought to the given radius.\<close>

lemma length_v_reproject:
  assumes "v \<noteq> Zero" and "0 \<le> r"
  shows "length_v (scale (normalize_v v) r) = r"
  using assms by (simp add: length_v_scale length_v_normalize)

lemma length_v_le_iff:
  "0 \<le> c \<Longrightarrow> length_v v \<le> c \<longleftrightarrow> vx v * vx v + vy v * vy v + vz v * vz v \<le> c * c"
  using real_sqrt_le_iff [of "vx v * vx v + vy v * vy v + vz v * vz v" "c * c"]
  by (simp add: length_v_def)

lemma length_v_less_iff:
  "0 \<le> c \<Longrightarrow> c < length_v v \<longleftrightarrow> c * c < vx v * vx v + vy v * vy v + vz v * vz v"
  using length_v_le_iff [of c v] by auto

lemma length_v_eq_iff:
  "0 \<le> c \<Longrightarrow> length_v v = c \<longleftrightarrow> vx v * vx v + vy v * vy v + vz v * vz v = c * c"
  using real_sqrt_eq_iff [of "vx v * vx v + vy v * vy v + vz v * vz v" "c * c"]
  by (simp add: length_v_def)

text \<open>A rotation about a unit axis keeps the length.\<close>

lemma rotation_polynomial:
  fixes a b c s k x y z :: real
  assumes "a * a + b * b + c * c = 1" and "s * s + k * k = 1"
  shows "(x * (a * a * (1 - k) + k) + y * (b * a * (1 - k) + c * s) + z * (c * a * (1 - k) - b * s))
           * (x * (a * a * (1 - k) + k) + y * (b * a * (1 - k) + c * s) + z * (c * a * (1 - k) - b * s))
       + (x * (a * b * (1 - k) - c * s) + y * (b * b * (1 - k) + k) + z * (c * b * (1 - k) + a * s))
           * (x * (a * b * (1 - k) - c * s) + y * (b * b * (1 - k) + k) + z * (c * b * (1 - k) + a * s))
       + (x * (a * c * (1 - k) + b * s) + y * (b * c * (1 - k) - a * s) + z * (c * c * (1 - k) + k))
           * (x * (a * c * (1 - k) + b * s) + y * (b * c * (1 - k) - a * s) + z * (c * c * (1 - k) + k))
       = x * x + y * y + z * z"
  using assms by algebra

lemma length_v_rotate:
  assumes "length_v axis = 1"
  shows "length_v (TransformCoordinates p (RotationAxis axis angle)) = length_v p"
proof -
  have n: "normalize_v axis = axis"
    using assms by (simp add: normalize_v_def)
  have u: "vx axis * vx axis + vy axis * vy axis + vz axis * vz axis = 1"
    using assms length_v_eq_iff [of 1 axis] by simp
  define s where "s = sin (- angle)"
  define k where "k = cos (- angle)"
  have t: "s * s + k * k = 1"
    using sin_cos_squared_add [of "- angle"] by (simp add: power2_eq_square s_def k_def)
  show ?thesis
    unfolding RotationAxis_def Let_def n length_v_def s_def [symmetric] k_def [symmetric]
    by (simp only: TransformCoordinates.simps Vector3.sel rotation_polynomial [OF u t])
qed

text \<open>With no axis to turn about, the matrix scales by the cosine of the angle.\<close>

lemma rotate_Zero_axis:
  "TransformCoordinates p (RotationAxis Zero angle) = scale p (cos angle)"
  by (simp add: RotationAxis_def Let_def normalize_Zero scale_def) (simp add: Zero_def)

text \<open>Vectors along the first and the third axis, for the concrete cases.\<close>

lemma length_v_x: "length_v (Vector3 x 0 0) = \<bar>x\<bar>"
  by (simp add: length_v_def)

lemma normalize_x: "normalize_v (Vector3 x 0 0) = Vector3 (x / \<bar>x\<bar>) 0 0"
  by (simp add: normalize_scale length_v_x scale_def)


lemma length_v_z: "length_v (Vector3 0 0 z) = \<bar>z\<bar>"
  by (simp add: length_v_def)

lemma normalize_z: "normalize_v (Vector3 0 0 z) = Vector3 0 0 (z / \<bar>z\<bar>)"
  by (simp add: normalize_scale length_v_z scale_def)


section \<open>Re-projection on a sphere\<close>

lemma length_v_Dot: "length_v v = sqrt (Dot v v)"
  by (simp add: length_v_def Dot_def)

lemma Dot_nonneg: "0 \<le> Dot v v"
  by (simp add: Dot_def)

lemma Dot_length: "Dot v v = length_v v * length_v v"
  by (simp add: length_v_sq)

lemma Dot_subtract:
  "Dot (subtract a b) (subtract a b) = Dot a a - 2 * Dot a b + Dot b b"
  by (simp add: Dot_def subtract_def algebra_simps)

lemma Dot_scale_right: "Dot a (scale b k) = k * Dot a b"
  by (simp add: Dot_def scale_def algebra_simps)

lemma Dot_scale_both: "Dot (scale b k) (scale b k) = k * k * Dot b b"
  by (simp add: Dot_def scale_def algebra_simps)

lemma Dot_segment_self:
  "Dot (add c (scale (subtract t c) k)) (add c (scale (subtract t c) k))
     = (1 - k) * (1 - k) * Dot c c + 2 * k * (1 - k) * Dot c t + k * k * Dot t t"
  by (simp add: Dot_def add_def scale_def subtract_def algebra_simps)

lemma Dot_segment_target:
  "Dot t (add c (scale (subtract t c) k)) = (1 - k) * Dot c t + k * Dot t t"
  by (simp add: Dot_def add_def scale_def subtract_def algebra_simps)

lemma cauchy_schwarz: "Dot a b * Dot a b \<le> Dot a a * Dot b b"
proof -
  have "Dot a a * Dot b b - Dot a b * Dot a b
          = (vx a * vy b - vy a * vx b) * (vx a * vy b - vy a * vx b)
          + (vy a * vz b - vz a * vy b) * (vy a * vz b - vz a * vy b)
          + (vz a * vx b - vx a * vz b) * (vz a * vx b - vx a * vz b)"
    by (simp add: Dot_def algebra_simps)
  moreover have "0 \<le> (vx a * vy b - vy a * vx b) * (vx a * vy b - vy a * vx b)
          + (vy a * vz b - vz a * vy b) * (vy a * vz b - vz a * vy b)
          + (vz a * vx b - vx a * vz b) * (vz a * vx b - vx a * vz b)"
    by (intro add_nonneg_nonneg zero_le_square)
  ultimately show ?thesis by linarith
qed

lemma Dot_bound:
  assumes "length_v a = r" and "length_v b = r"
  shows "\<bar>Dot a b\<bar> \<le> r * r"
proof -
  have "Dot a b * Dot a b \<le> (r * r) * (r * r)"
    using cauchy_schwarz [of a b] assms by (simp add: Dot_length)
  then have "(Dot a b)\<^sup>2 \<le> (r * r)\<^sup>2"
    by (simp add: power2_eq_square)
  then show ?thesis
    using abs_le_square_iff [of "Dot a b" "r * r"] by simp
qed

text \<open>
  The arithmetic of the step: \<open>d\<close> is the inner product of the current point and the
  target, both at radius \<open>R\<close>, and \<open>L\<close> the length of the point a fraction \<open>k\<close> of the way
  along the chord.
\<close>

lemma reproject_core:
  fixes R L d k :: real
  assumes R: "0 \<le> R" and L: "0 < L" and k0: "0 \<le> k" and k1: "k \<le> 1"
    and d: "\<bar>d\<bar> \<le> R * R"
    and M: "L * L = (1 - k) * (1 - k) * (R * R) + 2 * k * (1 - k) * d + k * k * (R * R)"
  shows "d * L \<le> R * ((1 - k) * d + k * (R * R))"
proof -
  define A where "A = (1 - k) * d + k * (R * R)"
  have "A - d = k * (R * R - d)"
    by (simp add: A_def algebra_simps)
  moreover have "0 \<le> k * (R * R - d)"
    using k0 d by (intro mult_nonneg_nonneg) auto
  ultimately have Ad: "d \<le> A" by linarith
  have "L * L = R * R - (2 * k * (1 - k)) * (R * R - d)"
    by (simp add: M algebra_simps)
  moreover have "0 \<le> (2 * k * (1 - k)) * (R * R - d)"
    using k0 k1 d by (intro mult_nonneg_nonneg) auto
  ultimately have "L * L \<le> R * R" by linarith
  then have "L\<^sup>2 \<le> R\<^sup>2" by (simp add: power2_eq_square)
  then have LR: "L \<le> R"
    using R power2_le_imp_le by blast
  show ?thesis
  proof (cases "0 \<le> d")
    case True
    have "d * L \<le> d * R" using LR True by (rule mult_left_mono)
    also have "\<dots> \<le> A * R" using Ad R by (rule mult_right_mono)
    finally show ?thesis by (simp add: A_def mult.commute)
  next
    case False
    show ?thesis
    proof (cases "0 \<le> A")
      case True
      have "d * L \<le> 0" using False L by (simp add: mult_le_0_iff)
      moreover have "0 \<le> R * A" using True R by simp
      ultimately show ?thesis by (simp add: A_def)
    next
      case neg: False
      have e: "(d * L) * (d * L) - (A * R) * (A * R)
                 = (d * d) * (L * L) - (A * A) * (R * R)"
        by (simp add: algebra_simps)
      have f: "(d * d) * (L * L) - (A * A) * (R * R)
                 = (R * R * (R * R) - d * d) * (k * (- (k * (R * R) + 2 * (1 - k) * d)))"
        unfolding M A_def by algebra
      have "d * d \<le> (R * R) * (R * R)"
        using d abs_le_square_iff [of d "R * R"] by (simp add: power2_eq_square)
      then have g: "0 \<le> R * R * (R * R) - d * d" by simp
      have "(1 - k) * d < - (k * (R * R))"
        using neg by (simp add: A_def)
      moreover have "0 \<le> k * (R * R)" using k0 by simp
      ultimately have "0 \<le> - (k * (R * R) + 2 * (1 - k) * d)" by linarith
      then have "0 \<le> k * (- (k * (R * R) + 2 * (1 - k) * d))"
        using k0 by (rule mult_nonneg_nonneg [rotated])
      then have "0 \<le> (d * L) * (d * L) - (A * R) * (A * R)"
        using g unfolding e f by (rule mult_nonneg_nonneg [rotated])
      then have "(- (A * R))\<^sup>2 \<le> (- (d * L))\<^sup>2"
        by (simp add: power2_eq_square)
      moreover have "0 \<le> - (d * L)"
        using False L by (simp add: mult_le_0_iff)
      ultimately have "- (A * R) \<le> - (d * L)"
        using power2_le_imp_le by blast
      then show ?thesis by (simp add: A_def mult.commute)
    qed
  qed
qed

text \<open>
  The current point \<open>c\<close> and the target \<open>t\<close> lie at the same radius \<open>R\<close>, and the point
  is stepped a fraction \<open>k\<close> of at most a quarter along the chord to the target. The
  stepped point is not the centre, and re-projected to the radius it is not farther from
  the target than \<open>c\<close> was.
\<close>

lemma segment_length_pos:
  assumes k0: "0 \<le> k" and k1: "k \<le> 1 / 4"
    and c: "length_v c = R" and t: "length_v t = R" and R: "0 < R"
  shows "0 < length_v (add c (scale (subtract t c) k))"
proof -
  define q where "q = add c (scale (subtract t c) k)"
  define d where "d = Dot c t"
  have cc: "Dot c c = R * R" and tt: "Dot t t = R * R"
    using c t by (simp_all add: Dot_length)
  have d: "\<bar>d\<bar> \<le> R * R"
    unfolding d_def using c t by (rule Dot_bound)
  have M: "length_v q * length_v q
             = (1 - k) * (1 - k) * (R * R) + 2 * k * (1 - k) * d + k * k * (R * R)"
    unfolding length_v_sq q_def Dot_segment_self cc tt d_def ..
  have "length_v q \<noteq> 0"
  proof
    assume "length_v q = 0"
    then have "(1 - k) * (1 - k) * (R * R) + 2 * k * (1 - k) * d + k * k * (R * R) = 0"
      using M by simp
    moreover have "(2 * k * (1 - k)) * (- (R * R)) \<le> (2 * k * (1 - k)) * d"
      using k0 k1 d by (intro mult_left_mono) auto
    ultimately have "(1 - 2 * k) * (1 - 2 * k) * (R * R) \<le> 0"
      by (simp add: algebra_simps)
    moreover have "0 < (1 - 2 * k) * (1 - 2 * k) * (R * R)"
      using k1 R by (intro mult_pos_pos) auto
    ultimately show False by simp
  qed
  then show ?thesis
    using length_v_nonneg [of q] by (simp add: q_def)
qed

lemma reproject_closer:
  assumes k0: "0 \<le> k" and k1: "k \<le> 1 / 4"
    and c: "length_v c = R" and t: "length_v t = R"
  shows "length_v (subtract t (scale (normalize_v (add c (scale (subtract t c) k))) R))
           \<le> length_v (subtract t c)"
proof (cases "R = 0")
  case True
  then have "c = Zero" and "t = Zero"
    using c t by (simp_all add: length_v_eq_0)
  then show ?thesis
    using True by (simp add: scale_def subtract_def Zero_def length_v_def)
next
  case False
  have R: "0 < R" using False c length_v_nonneg [of c] by simp
  define q where "q = add c (scale (subtract t c) k)"
  define d where "d = Dot c t"
  define L where "L = length_v q"
  have cc: "Dot c c = R * R" and tt: "Dot t t = R * R"
    using c t by (simp_all add: Dot_length)
  have d: "\<bar>d\<bar> \<le> R * R"
    unfolding d_def using c t by (rule Dot_bound)
  have M: "L * L = (1 - k) * (1 - k) * (R * R) + 2 * k * (1 - k) * d + k * k * (R * R)"
    unfolding L_def length_v_sq q_def Dot_segment_self cc tt d_def ..
  have A: "Dot t q = (1 - k) * d + k * (R * R)"
    unfolding q_def Dot_segment_target tt d_def ..
  have L: "0 < L"
    unfolding L_def q_def using k0 k1 c t R by (rule segment_length_pos)
  define n where "n = scale (normalize_v q) R"
  have n: "n = scale q (R / L)"
    by (simp add: n_def normalize_scale L_def scale_def)
  have "d * L \<le> R * ((1 - k) * d + k * (R * R))"
    using R L k0 k1 d M by (intro reproject_core) auto
  then have "d * L \<le> R * Dot t q" by (simp add: A)
  then have "d \<le> (R / L) * Dot t q"
    using L by (simp add: field_simps)
  moreover have "Dot n n = R * R"
  proof -
    have "Dot n n = (R / L) * (R / L) * (L * L)"
      by (simp only: n Dot_scale_both L_def length_v_sq)
    then show ?thesis using L by simp
  qed
  moreover have "Dot t n = (R / L) * Dot t q"
    by (simp add: n Dot_scale_right)
  moreover have "Dot t c = d"
    by (simp add: d_def Dot_def mult.commute)
  ultimately have "Dot (subtract t n) (subtract t n) \<le> Dot (subtract t c) (subtract t c)"
    by (simp add: Dot_subtract cc tt)
  then show ?thesis
    by (simp add: length_v_Dot n_def q_def)
qed

lemma reproject_radius:
  assumes k0: "0 \<le> k" and k1: "k \<le> 1 / 4"
    and c: "length_v c = R" and t: "length_v t = R"
  shows "length_v (scale (normalize_v (add c (scale (subtract t c) k))) R) = R"
proof (cases "R = 0")
  case True
  then show ?thesis by (simp add: length_v_scale)
next
  case False
  then have R: "0 < R" using c length_v_nonneg [of c] by simp
  have "0 < length_v (add c (scale (subtract t c) k))"
    using k0 k1 c t R by (rule segment_length_pos)
  then have "add c (scale (subtract t c) k) \<noteq> Zero"
    using length_v_eq_0 [of "add c (scale (subtract t c) k)"] by auto
  then show ?thesis
    using R by (simp add: length_v_reproject)
qed

lemma reproject_fixed:
  assumes "length_v c = R"
  shows "scale (normalize_v (add c (scale (subtract t c) 0))) R = c"
proof -
  have a: "add c (scale (subtract t c) 0) = c"
    by (cases c) (simp add: add_def scale_def)
  show ?thesis
  proof (cases "R = 0")
    case True
    then have "c = Zero" using assms by (simp add: length_v_eq_0)
    then show ?thesis unfolding a using True by (simp add: scale_def Zero_def)
  next
    case False
    then show ?thesis
      unfolding a using assms by (cases c) (simp add: normalize_scale scale_def)
  qed
qed

text \<open>
  The same step, by inner products: \<open>d\<close> before and \<open>d'\<close> after, the inner product of the
  re-projected point and the target being \<open>R / L\<close> times that of the stepped point. The
  inner product does not shrink; it grows when a step is taken (\<open>0 < k\<close>) between two
  points that are neither equal nor opposite; within a quarter turn it reaches that of
  the stepped point; beyond, it gets to a quarter turn or gains a fixed part of its
  distance to \<open>- R\<^sup>2\<close>.
\<close>

lemma step_real:
  fixes R L d d' k :: real
  assumes R: "0 < R" and L: "0 < L" and k0: "0 \<le> k" and k1: "k \<le> 1 / 4"
    and d: "\<bar>d\<bar> \<le> R * R"
    and M: "L * L = (1 - k) * (1 - k) * (R * R) + 2 * k * (1 - k) * d + k * k * (R * R)"
    and d': "d' * L = R * ((1 - k) * d + k * (R * R))"
  shows "d \<le> d'"
    and "0 < k \<Longrightarrow> \<bar>d\<bar> < R * R \<Longrightarrow> d < d'"
    and "0 \<le> d \<Longrightarrow> (1 - k) * d + k * (R * R) \<le> d'"
    and "d < 0 \<Longrightarrow> 0 \<le> d' \<or> d + (R * R + d) * (k * k) / 2 \<le> d'"
proof -
  define A where "A = (1 - k) * d + k * (R * R)"
  have dA: "d' * L = R * A" by (simp add: d' A_def)
  have Ad: "A - d = k * (R * R - d)"
    by (simp add: A_def algebra_simps)
  have "0 \<le> k * (R * R - d)"
    using k0 d by (intro mult_nonneg_nonneg) auto
  then have dleA: "d \<le> A" using Ad by linarith
  have "L * L = R * R - (2 * k * (1 - k)) * (R * R - d)"
    by (simp add: M algebra_simps)
  moreover have "0 \<le> (2 * k * (1 - k)) * (R * R - d)"
    using k0 k1 d by (intro mult_nonneg_nonneg) auto
  ultimately have "L * L \<le> R * R" by linarith
  then have "L\<^sup>2 \<le> R\<^sup>2" by (simp add: power2_eq_square)
  then have LR: "L \<le> R"
    using R power2_le_imp_le [of L R] by simp
  have core: "d * L \<le> R * A"
    unfolding A_def using R L k0 k1 d M by (intro reproject_core) auto
  then have "d * L \<le> d' * L" by (simp add: dA)
  then show "d \<le> d'" using L by simp
  have G: "(d * L) * (d * L) - (R * A) * (R * A)
             = (R * R * (R * R) - d * d) * (k * (- (k * (R * R) + 2 * (1 - k) * d)))"
  proof -
    have "(d * L) * (d * L) - (R * A) * (R * A) = (d * d) * (L * L) - (A * A) * (R * R)"
      by (simp add: algebra_simps)
    also have "\<dots> = (R * R * (R * R) - d * d) * (k * (- (k * (R * R) + 2 * (1 - k) * d)))"
      unfolding M A_def by algebra
    finally show ?thesis .
  qed
  show "d < d'" if kp: "0 < k" and ds: "\<bar>d\<bar> < R * R"
  proof -
    have "d * L < R * A"
    proof (cases "0 \<le> d")
      case True
      have "0 < k * (R * R - d)" using kp ds by (intro mult_pos_pos) auto
      then have "d < A" using Ad by linarith
      then have "R * d < R * A" using R by simp
      moreover have "d * L \<le> d * R" using LR True by (rule mult_left_mono)
      ultimately show ?thesis by (simp add: mult.commute)
    next
      case False
      then have dn: "d * L < 0" using L by (simp add: mult_less_0_iff)
      show ?thesis
      proof (cases "0 \<le> A")
        case True
        then have "0 \<le> R * A" using R by simp
        then show ?thesis using dn by simp
      next
        case neg: False
        have "\<bar>d\<bar> * \<bar>d\<bar> < (R * R) * (R * R)"
          using ds by (intro mult_strict_mono') auto
        then have g: "0 < R * R * (R * R) - d * d" by simp
        have "(1 - k) * d < - (k * (R * R))"
          using neg by (simp add: A_def)
        moreover have "0 < k * (R * R)" using kp R by simp
        ultimately have "0 < - (k * (R * R) + 2 * (1 - k) * d)" by linarith
        then have h: "0 < k * (- (k * (R * R) + 2 * (1 - k) * d))"
          using kp by (intro mult_pos_pos)
        have "0 < (d * L) * (d * L) - (R * A) * (R * A)"
          unfolding G by (rule mult_pos_pos [OF g h])
        then have "(- (R * A))\<^sup>2 < (- (d * L))\<^sup>2"
          by (simp add: power2_eq_square)
        moreover have "0 \<le> - (d * L)" using dn by simp
        ultimately have "- (R * A) < - (d * L)"
          using power2_less_imp_less by blast
        then show ?thesis by simp
      qed
    qed
    then have "d * L < d' * L" by (simp add: dA)
    then show ?thesis using L by simp
  qed
  show "(1 - k) * d + k * (R * R) \<le> d'" if "0 \<le> d"
  proof -
    have "0 \<le> A" using that dleA by simp
    then have "A * L \<le> A * R" using LR by (intro mult_left_mono)
    also have "\<dots> = R * A" by (rule mult.commute)
    also have "\<dots> = d' * L" by (rule dA [symmetric])
    finally have "A * L \<le> d' * L" .
    then have "A \<le> d'" using L by simp
    then show ?thesis by (simp add: A_def)
  qed
  show "0 \<le> d' \<or> d + (R * R + d) * (k * k) / 2 \<le> d'" if dneg: "d < 0"
  proof (cases "0 \<le> A")
    case True
    then have "0 \<le> R * A" using R by simp
    then have "0 \<le> d' * L" by (simp add: dA)
    then have "0 \<le> d'" using L by (simp add: zero_le_mult_iff)
    then show ?thesis ..
  next
    case neg: False
    define X where "X = R * A - d * L"
    define S where "S = - (d * L) - R * A"
    have X0: "0 \<le> X" using core by (simp add: X_def)
    have XS: "X * S = (d * L) * (d * L) - (R * A) * (R * A)"
      by (simp add: X_def S_def algebra_simps)
    have g: "0 \<le> R * R * (R * R) - d * d"
      using d abs_le_square_iff [of d "R * R"] by (simp add: power2_eq_square)
    have "(1 - k) * d < - (k * (R * R))"
      using neg by (simp add: A_def)
    then have "k * (R * R) \<le> - (k * (R * R) + 2 * (1 - k) * d)" by linarith
    then have kk: "k * (k * (R * R)) \<le> k * (- (k * (R * R) + 2 * (1 - k) * d))"
      using k0 by (rule mult_left_mono)
    have "(R * R * (R * R) - d * d) * (k * (k * (R * R)))
                 \<le> (R * R * (R * R) - d * d) * (k * (- (k * (R * R) + 2 * (1 - k) * d)))"
      using kk g by (rule mult_left_mono)
    then have lower: "(R * R * (R * R) - d * d) * (k * (k * (R * R))) \<le> X * S"
      by (simp add: XS G)
    have e: "0 \<le> R * R + d" using d by (simp add: abs_le_iff)
    have "R * R \<le> R * R - d" using dneg by simp
    then have "(R * R) * (R * R + d) \<le> (R * R - d) * (R * R + d)"
      using e by (rule mult_right_mono)
    moreover have "R * R * (R * R) - d * d = (R * R - d) * (R * R + d)"
      by (simp add: algebra_simps)
    ultimately have "(R * R) * (R * R + d) \<le> R * R * (R * R) - d * d" by simp
    moreover have "0 \<le> k * (k * (R * R))" using k0 by simp
    ultimately have "((R * R) * (R * R + d)) * (k * (k * (R * R)))
                 \<le> (R * R * (R * R) - d * d) * (k * (k * (R * R)))"
      by (rule mult_right_mono)
    then have low2: "((R * R) * (R * R + d)) * (k * (k * (R * R))) \<le> X * S"
      using lower by linarith
    have "- (d * L) \<le> (R * R) * R"
    proof -
      have "- d \<le> R * R" using d by (simp add: abs_le_iff)
      moreover have "0 \<le> L" using L by simp
      moreover have "0 \<le> R * R" by simp
      ultimately have "(- d) * L \<le> (R * R) * R"
        using LR by (intro mult_mono)
      then show ?thesis by simp
    qed
    moreover have "- (R * A) \<le> R * (R * R)"
    proof -
      have "- A \<le> R * R" using dleA d by (simp add: abs_le_iff)
      moreover have "0 \<le> R" using R by simp
      ultimately have "R * (- A) \<le> R * (R * R)" by (rule mult_left_mono)
      then show ?thesis by simp
    qed
    ultimately have "S \<le> 2 * (R * (R * R))" by (simp add: S_def)
    then have "X * S \<le> X * (2 * (R * (R * R)))"
      using X0 by (rule mult_left_mono)
    then have "((R * R) * (R * R + d)) * (k * (k * (R * R))) \<le> X * (2 * (R * (R * R)))"
      using low2 by linarith
    then have "(R * (R * R)) * (R * ((R * R + d) * (k * k))) \<le> (R * (R * R)) * (2 * X)"
      by (simp add: algebra_simps)
    moreover have "0 < R * (R * R)" using R by simp
    ultimately have "R * ((R * R + d) * (k * k)) \<le> 2 * X"
      using mult_le_cancel_left_pos by blast
    moreover have "L * ((R * R + d) * (k * k)) \<le> R * ((R * R + d) * (k * k))"
    proof -
      have "0 \<le> (R * R + d) * (k * k)" using e by simp
      with LR show ?thesis by (rule mult_right_mono)
    qed
    ultimately have "L * ((R * R + d) * (k * k)) \<le> 2 * (R * A - d * L)"
      by (simp add: X_def)
    moreover define Y where "Y = (R * R + d) * (k * k)"
    ultimately have Y: "L * Y \<le> 2 * (R * A - d * L)" by simp
    have "(d + Y / 2) * L = d * L + L * Y / 2"
      by (simp add: field_simps)
    moreover from Y have "L * Y / 2 \<le> R * A - d * L" by simp
    then have "d * L + L * Y / 2 \<le> R * A" by simp
    ultimately have "(d + Y / 2) * L \<le> R * A" by (simp only:)
    then have "(d + (R * R + d) * (k * k) / 2) * L \<le> R * A"
      by (simp add: Y_def)
    then have "(d + (R * R + d) * (k * k) / 2) * L \<le> d' * L"
      by (simp add: dA)
    then have "d + (R * R + d) * (k * k) / 2 \<le> d'"
      using L by simp
    then show ?thesis ..
  qed
qed

text \<open>
  The step in distances: \<open>D\<close> from the current point to the target, \<open>D'\<close> from the
  re-projected point to the target. The two points of the sphere are at most a diameter
  apart; a step taken between points that are neither equal nor opposite brings the
  point closer; within a quarter turn the square of the distance shrinks by the factor
  \<open>1 - k\<close>; beyond, the quarter turn is reached or the gap to the diameter grows by the
  factor \<open>1 + k\<^sup>2 / 2\<close>.
\<close>

lemma reproject_progress:
  assumes k0: "0 \<le> k" and k1: "k \<le> 1 / 4"
    and c: "length_v c = R" and t: "length_v t = R" and R: "0 < R"
    and D: "D = length_v (subtract t c)"
    and D': "D' = length_v (subtract t
                    (scale (normalize_v (add c (scale (subtract t c) k))) R))"
  shows "D \<le> 2 * R"
    and "0 < k \<Longrightarrow> 0 < D \<Longrightarrow> D < 2 * R \<Longrightarrow> D' < D"
    and "D * D \<le> 2 * (R * R) \<Longrightarrow> D' * D' \<le> (1 - k) * (D * D)"
    and "2 * (R * R) < D * D \<Longrightarrow>
           D' * D' \<le> 2 * (R * R) \<or>
           (1 + k * k / 2) * (4 * (R * R) - D * D) \<le> 4 * (R * R) - D' * D'"
proof -
  define q where "q = add c (scale (subtract t c) k)"
  define d where "d = Dot c t"
  define L where "L = length_v q"
  define n where "n = scale (normalize_v q) R"
  define d' where "d' = Dot t n"
  have cc: "Dot c c = R * R" and tt: "Dot t t = R * R"
    using c t by (simp_all add: Dot_length)
  have d: "\<bar>d\<bar> \<le> R * R"
    unfolding d_def using c t by (rule Dot_bound)
  have M: "L * L = (1 - k) * (1 - k) * (R * R) + 2 * k * (1 - k) * d + k * k * (R * R)"
    unfolding L_def length_v_sq q_def Dot_segment_self cc tt d_def ..
  have A: "Dot t q = (1 - k) * d + k * (R * R)"
    unfolding q_def Dot_segment_target tt d_def ..
  have L: "0 < L"
    unfolding L_def q_def using k0 k1 c t R by (rule segment_length_pos)
  have n: "n = scale q (R / L)"
    by (simp add: n_def normalize_scale L_def scale_def)
  have nn: "Dot n n = R * R"
  proof -
    have "Dot n n = (R / L) * (R / L) * (L * L)"
      by (simp only: n Dot_scale_both L_def length_v_sq)
    then show ?thesis using L by simp
  qed
  have "d' = (R / L) * Dot t q"
    by (simp add: d'_def n Dot_scale_right)
  then have d'L: "d' * L = R * ((1 - k) * d + k * (R * R))"
    using L by (simp add: A)
  have tc: "Dot t c = d"
    by (simp add: d_def Dot_def mult.commute)
  have DD: "D * D = 2 * (R * R) - 2 * d"
    by (simp add: D length_v_sq Dot_subtract cc tt tc)
  have DD': "D' * D' = 2 * (R * R) - 2 * d'"
    unfolding D' q_def [symmetric] n_def [symmetric]
    by (simp add: length_v_sq Dot_subtract nn tt d'_def)
  have D0: "0 \<le> D" and D'0: "0 \<le> D'"
    by (simp_all add: D D' length_v_nonneg)
  have "D * D \<le> (2 * R) * (2 * R)"
    using d by (simp add: DD abs_le_iff)
  then have "D\<^sup>2 \<le> (2 * R)\<^sup>2"
    by (simp add: power2_eq_square)
  then show "D \<le> 2 * R"
    using R power2_le_imp_le [of D "2 * R"] by simp
  show "D' < D" if k: "0 < k" and p: "0 < D" and a: "D < 2 * R"
  proof -
    have "0 < D * D" using p by simp
    then have "d < R * R" by (simp add: DD)
    moreover have "D * D < (2 * R) * (2 * R)"
      using a a D0 D0 by (rule mult_strict_mono')
    then have "- (R * R) < d" by (simp add: DD)
    ultimately have "\<bar>d\<bar> < R * R" by (simp add: abs_less_iff)
    then have "d < d'"
      using step_real(2) [OF R L k0 k1 d M d'L k] by simp
    then have "D' * D' < D * D" by (simp add: DD DD')
    then have "D'\<^sup>2 < D\<^sup>2" by (simp add: power2_eq_square)
    then show ?thesis
      using D0 power2_less_imp_less by blast
  qed
  show "D' * D' \<le> (1 - k) * (D * D)" if "D * D \<le> 2 * (R * R)"
  proof -
    have "0 \<le> d" using that by (simp add: DD)
    then have "(1 - k) * d + k * (R * R) \<le> d'"
      by (rule step_real(3) [OF R L k0 k1 d M d'L])
    moreover have "(1 - k) * (D * D) = 2 * (R * R) - 2 * ((1 - k) * d + k * (R * R))"
      unfolding DD by (simp add: algebra_simps)
    ultimately show ?thesis by (simp add: DD')
  qed
  show "D' * D' \<le> 2 * (R * R) \<or>
        (1 + k * k / 2) * (4 * (R * R) - D * D) \<le> 4 * (R * R) - D' * D'"
    if "2 * (R * R) < D * D"
  proof -
    have "d < 0" using that by (simp add: DD)
    then have "0 \<le> d' \<or> d + (R * R + d) * (k * k) / 2 \<le> d'"
      by (rule step_real(4) [OF R L k0 k1 d M d'L])
    then show ?thesis
    proof
      assume "0 \<le> d'"
      then have "D' * D' \<le> 2 * (R * R)" by (simp add: DD')
      then show ?thesis ..
    next
      assume "d + (R * R + d) * (k * k) / 2 \<le> d'"
      moreover have "(1 + k * k / 2) * (4 * (R * R) - D * D)
                       = 2 * (R * R) + 2 * (d + (R * R + d) * (k * k) / 2)"
        unfolding DD by (simp add: algebra_simps)
      moreover have "4 * (R * R) - D' * D' = 2 * (R * R) + 2 * d'"
        unfolding DD' by simp
      ultimately have "(1 + k * k / 2) * (4 * (R * R) - D * D) \<le> 4 * (R * R) - D' * D'"
        by (simp only:) simp
      then show ?thesis ..
    qed
  qed
qed


section \<open>A distance that shrinks by tick\<close>

text \<open>
  The arithmetic of repeated ticks, for a sequence \<open>D\<close> of distances between two points of
  a sphere of radius \<open>R\<close>. The distance never grows. Within a quarter turn
  (\<open>D\<^sup>2 \<le> 2 R\<^sup>2\<close>) its square shrinks by the factor \<open>1 - \<kappa>\<close> at every step taken above the
  threshold \<open>\<theta>\<close>; beyond a quarter turn, the gap \<open>4 R\<^sup>2 - D\<^sup>2\<close> to the diameter grows by a
  fixed factor, or the quarter turn is reached. Then the distance comes within the
  threshold, unless it starts at the diameter.
\<close>

lemma eventually_within:
  fixes D :: "nat \<Rightarrow> real" and R \<kappa> \<theta> :: real
  assumes R: "0 < R" and k0: "0 < \<kappa>" and k1: "\<kappa> \<le> 1 / 4" and th: "0 < \<theta>"
    and nonneg: "\<And>n. 0 \<le> D n"
    and start: "D 0 < 2 * R"
    and mono: "\<And>n. D (Suc n) \<le> D n"
    and near: "\<And>n. \<theta> < D n \<Longrightarrow> D n * D n \<le> 2 * (R * R)
                 \<Longrightarrow> D (Suc n) * D (Suc n) \<le> (1 - \<kappa>) * (D n * D n)"
    and far: "\<And>n. \<theta> < D n \<Longrightarrow> 2 * (R * R) < D n * D n
                 \<Longrightarrow> D (Suc n) * D (Suc n) \<le> 2 * (R * R) \<or>
                     (1 + \<kappa> * \<kappa> / 2) * (4 * (R * R) - D n * D n)
                       \<le> 4 * (R * R) - D (Suc n) * D (Suc n)"
  shows "\<exists>N. D N \<le> \<theta>"
proof (rule ccontr)
  assume "\<not> (\<exists>N. D N \<le> \<theta>)"
  then have above: "\<theta> < D n" for n
    by (simp add: not_le)
  define c where "c = \<kappa> * \<kappa> / 2"
  have c: "0 < c" using k0 by (simp add: c_def)
  have quarter: "\<exists>N. D N * D N \<le> 2 * (R * R)"
  proof (rule ccontr)
    assume "\<not> (\<exists>N. D N * D N \<le> 2 * (R * R))"
    then have beyond: "2 * (R * R) < D n * D n" for n
      by (simp add: not_le)
    define E where "E n = 4 * (R * R) - D n * D n" for n
    have step: "(1 + c) * E n \<le> E (Suc n)" for n
      using far [OF above beyond, of n] beyond [of "Suc n"] by (simp add: E_def c_def)
    have grow: "(1 + c) ^ n * E 0 \<le> E n" for n
    proof (induction n)
      case 0
      then show ?case by simp
    next
      case (Suc n)
      have "(1 + c) ^ Suc n * E 0 = (1 + c) * ((1 + c) ^ n * E 0)"
        by simp
      also have "\<dots> \<le> (1 + c) * E n"
        using Suc c by (intro mult_left_mono) auto
      also have "\<dots> \<le> E (Suc n)" by (rule step)
      finally show ?case .
    qed
    have "D 0 * D 0 < (2 * R) * (2 * R)"
      using start nonneg [of 0] by (intro mult_strict_mono') auto
    then have E0: "0 < E 0" by (simp add: E_def)
    have small: "E n \<le> 4 * (R * R)" for n
      by (simp add: E_def)
    obtain n where "4 * (R * R) / E 0 < (1 + c) ^ n"
      using real_arch_pow [of "1 + c" "4 * (R * R) / E 0"] c by auto
    then have "4 * (R * R) < (1 + c) ^ n * E 0"
      using E0 by (simp add: field_simps)
    then show False
      using grow [of n] small [of n] by simp
  qed
  then obtain N where N: "D N * D N \<le> 2 * (R * R)" ..
  have shrink: "D (N + m) * D (N + m) \<le> (1 - \<kappa>) ^ m * (2 * (R * R))" for m
  proof (induction m)
    case 0
    then show ?case using N by simp
  next
    case (Suc m)
    have p: "0 \<le> (1 - \<kappa>) ^ m" and q: "(1 - \<kappa>) ^ m \<le> 1"
      using k0 k1 by (simp_all add: power_le_one)
    have "(1 - \<kappa>) ^ m * (2 * (R * R)) \<le> 1 * (2 * (R * R))"
      using q by (intro mult_right_mono) auto
    then have "D (N + m) * D (N + m) \<le> 2 * (R * R)"
      using Suc by simp
    then have "D (Suc (N + m)) * D (Suc (N + m)) \<le> (1 - \<kappa>) * (D (N + m) * D (N + m))"
      using near [OF above] by blast
    also have "\<dots> \<le> (1 - \<kappa>) * ((1 - \<kappa>) ^ m * (2 * (R * R)))"
      using Suc k1 by (intro mult_left_mono) auto
    finally show ?case by (simp add: mult.assoc)
  qed
  obtain m where "(1 - \<kappa>) ^ m < \<theta> * \<theta> / (2 * (R * R))"
    using real_arch_pow_inv [of "\<theta> * \<theta> / (2 * (R * R))" "1 - \<kappa>"] th R k0 by auto
  then have "(1 - \<kappa>) ^ m * (2 * (R * R)) < \<theta> * \<theta>"
    using R by (simp add: field_simps)
  then have "D (N + m) * D (N + m) < \<theta> * \<theta>"
    using shrink [of m] by simp
  moreover have "\<theta> * \<theta> < D (N + m) * D (N + m)"
    using above [of "N + m"] th by (intro mult_strict_mono') auto
  ultimately show False by simp
qed

section \<open>Fuel\<close>

lemma updateFuel_range:
  assumes "0 \<le> deltaTime" "0 \<le> fuel s" "fuel s \<le> MAX_FUEL"
  shows "0 \<le> fuel (updateFuel deltaTime s) \<and> fuel (updateFuel deltaTime s) \<le> MAX_FUEL"
  using assms
  by (auto simp: updateFuel_def Let_def MAX_FUEL_def FUEL_BURN_RATE_def FUEL_REFILL_RATE_def
      intro: add_nonneg_nonneg order_trans)

lemma updateFuel_hysteresis:
  assumes "\<not> hasFuel s" "hasFuel (updateFuel deltaTime s)"
  shows "MAX_FUEL * 0.1 \<le> fuel (updateFuel deltaTime s)"
  using assms
  by (auto simp: updateFuel_def Let_def split: if_splits)

text \<open>
  C2. The fuel of a new player lies within \<open>[0, MAX_FUEL]\<close>, and a fuel update with
  \<open>deltaTime \<ge> 0\<close> keeps it there, so it is there after every tick; and \<open>hasFuel\<close> goes
  from false to true only in a tick that leaves at least 10% of \<open>MAX_FUEL\<close>.
\<close>

theorem fuel_invariant_hysteresis:
  assumes "0 \<le> deltaTime" and "0 \<le> fuel s" and "fuel s \<le> MAX_FUEL"
  shows "0 \<le> fuel (updateFuel deltaTime s) \<and> fuel (updateFuel deltaTime s) \<le> MAX_FUEL \<and>
         (\<not> hasFuel s \<and> hasFuel (updateFuel deltaTime s)
            \<longrightarrow> MAX_FUEL * 0.1 \<le> fuel (updateFuel deltaTime s)) \<and>
         0 \<le> fuel (newPlayer u pos q) \<and> fuel (newPlayer u pos q) \<le> MAX_FUEL"
  using updateFuel_range [OF assms] updateFuel_hysteresis [of s deltaTime]
  by (simp add: newPlayer_def MAX_FUEL_def)

text \<open>
  The hysteresis at work: an empty tank without thrust capability, refilled for one
  second, regains the capability with 12.67 units of fuel, above the 10 required.
\<close>

theorem fuel_invariant_hysteresis_witness:
  "(0::real) \<le> 1 \<and>
   0 \<le> fuel (examplePlayer\<lparr>fuel := 0, hasFuel := False\<rparr>) \<and>
   \<not> hasFuel (examplePlayer\<lparr>fuel := 0, hasFuel := False\<rparr>) \<and>
   hasFuel (updateFuel 1
      (examplePlayer\<lparr>fuel := 0, hasFuel := False\<rparr>)) \<and>
   MAX_FUEL * 0.1 \<le> fuel (updateFuel 1
      (examplePlayer\<lparr>fuel := 0, hasFuel := False\<rparr>))"
  using fuel_invariant_hysteresis
          [of 1 "examplePlayer\<lparr>fuel := 0, hasFuel := False\<rparr>"]
  by (simp add: examplePlayer_def newPlayer_def updateFuel_def MAX_FUEL_def FUEL_REFILL_RATE_def)


section \<open>Height\<close>

lemma clampHeight_range:
  "0.60 \<le> heightAboveSurface (clampHeight s) \<and> heightAboveSurface (clampHeight s) \<le> MAX_HEIGHT"
  by (simp add: clampHeight_def MAX_HEIGHT_def)

lemma clampHeight_idem: "clampHeight (clampHeight s) = clampHeight s"
  by (simp add: clampHeight_def MAX_HEIGHT_def)

lemma clampHeight_position: "position (clampHeight s) = position s"
  by (simp add: clampHeight_def)

lemma integrateHeight_position: "position (integrateHeight deltaTime s) = position s"
  by (simp add: integrateHeight_def updateFuel_def Let_def)

lemma updateProjectiles_frame:
  "updateProjectiles scene now ps s = (ps', s') \<Longrightarrow> s' = s\<lparr>frags := frags s'\<rparr>"
proof (induction ps arbitrary: s ps' s')
  case Nil
  then show ?case by simp
next
  case (Cons p ps)
  obtain alive p1 hit where u: "Projectile_update scene now p = (alive, p1, hit)"
    by (cases "Projectile_update scene now p") auto
  define s1 where "s1 = (case hit of None \<Rightarrow> s | Some target \<Rightarrow> onHit target s)"
  obtain rest s2 where r: "updateProjectiles scene now ps s1 = (rest, s2)"
    by (cases "updateProjectiles scene now ps s1") auto
  have s1: "s1 = s\<lparr>frags := frags s1\<rparr>"
    by (auto simp: s1_def onHit_def split: option.splits)
  have "s2 = s1\<lparr>frags := frags s2\<rparr>" using Cons.IH [OF r] .
  moreover have "s' = s2" using Cons.prems u r by (simp add: s1_def)
  ultimately have "s' = (s\<lparr>frags := frags s1\<rparr>)\<lparr>frags := frags s'\<rparr>" using s1 by simp
  then show ?case by simp
qed

text \<open>What a physics tick of a local player leaves in the fields the claims are about.\<close>

lemma updatePhysics_local:
  assumes "\<not> isRemotePlayer s"
  shows "heightAboveSurface (updatePhysics slerp scene now deltaTime s)
           = heightAboveSurface (clampHeight (integrateHeight deltaTime s))"
    and "verticalVelocity (updatePhysics slerp scene now deltaTime s)
           = verticalVelocity (clampHeight (integrateHeight deltaTime s))"
    and "position (updatePhysics slerp scene now deltaTime s)
           = scale (normalize_v (position s))
               (getBaseRadius + heightAboveSurface (clampHeight (integrateHeight deltaTime s)))"
proof -
  define s4 where "s4 = clampHeight (integrateHeight deltaTime s)"
  define s5 where
    "s5 = s4\<lparr>position := scale (normalize_v (position s4)) (getBaseRadius + heightAboveSurface s4)\<rparr>"
  obtain ps s6 where u: "updateProjectiles scene now (projectiles s5) s5 = (ps, s6)"
    by (cases "updateProjectiles scene now (projectiles s5) s5") auto
  have r: "updatePhysics slerp scene now deltaTime s = s6\<lparr>projectiles := ps\<rparr>"
    using assms u
    unfolding updatePhysics_def Let_def s4_def [symmetric] s5_def [symmetric] by simp
  have f: "s6 = s5\<lparr>frags := frags s6\<rparr>" using updateProjectiles_frame [OF u] .
  have "heightAboveSurface s6 = heightAboveSurface s5" by (subst f) simp
  then show "heightAboveSurface (updatePhysics slerp scene now deltaTime s)
           = heightAboveSurface (clampHeight (integrateHeight deltaTime s))"
    by (simp add: r s5_def s4_def)
  have "verticalVelocity s6 = verticalVelocity s5" by (subst f) simp
  then show "verticalVelocity (updatePhysics slerp scene now deltaTime s)
           = verticalVelocity (clampHeight (integrateHeight deltaTime s))"
    by (simp add: r s5_def s4_def)
  have "position s6 = position s5" by (subst f) simp
  then show "position (updatePhysics slerp scene now deltaTime s)
           = scale (normalize_v (position s))
               (getBaseRadius + heightAboveSurface (clampHeight (integrateHeight deltaTime s)))"
    by (simp add: r s5_def s4_def clampHeight_position integrateHeight_position)
qed

text \<open>
  C3. After a physics tick of a local player, for any \<open>deltaTime\<close>, the height lies
  between 0.60 and \<open>MAX_HEIGHT\<close>; when the integrated height is below 0.60 or above
  \<open>MAX_HEIGHT\<close>, the height is that bound and the vertical velocity is zero; clamping a
  clamped state again changes nothing.
\<close>

theorem height_clamping:
  assumes "\<not> isRemotePlayer s"
  shows "0.60 \<le> heightAboveSurface (updatePhysics slerp scene now deltaTime s) \<and>
         heightAboveSurface (updatePhysics slerp scene now deltaTime s) \<le> MAX_HEIGHT \<and>
         (heightAboveSurface (integrateHeight deltaTime s) < 0.60 \<longrightarrow>
            heightAboveSurface (updatePhysics slerp scene now deltaTime s) = 0.60 \<and>
            verticalVelocity (updatePhysics slerp scene now deltaTime s) = 0) \<and>
         (heightAboveSurface (integrateHeight deltaTime s) > MAX_HEIGHT \<longrightarrow>
            heightAboveSurface (updatePhysics slerp scene now deltaTime s) = MAX_HEIGHT \<and>
            verticalVelocity (updatePhysics slerp scene now deltaTime s) = 0) \<and>
         clampHeight (clampHeight s') = clampHeight s'"
  by (simp add: updatePhysics_local [OF assms] clampHeight_range clampHeight_idem)
     (simp add: clampHeight_def MAX_HEIGHT_def)

text \<open>
  The spawned player, at rest on the surface, falls for one second: the integrated
  height is \<open>0.60 - 3\<close>, and the tick leaves it at 0.60 with no vertical velocity. Thrown
  upwards at 10 units per second, it would rise to 7.6: the tick leaves it at
  \<open>MAX_HEIGHT\<close> with no vertical velocity.
\<close>

theorem height_clamping_witness:
  "\<not> isRemotePlayer examplePlayer \<and>
   heightAboveSurface (integrateHeight 1 examplePlayer) < 0.60 \<and>
   heightAboveSurface (updatePhysics (\<lambda>a b t. b) \<lparr>meshes = []\<rparr> 0 1 examplePlayer) = 0.60 \<and>
   verticalVelocity (updatePhysics (\<lambda>a b t. b) \<lparr>meshes = []\<rparr> 0 1 examplePlayer) = 0 \<and>
   \<not> isRemotePlayer (examplePlayer\<lparr>verticalVelocity := 10\<rparr>) \<and>
   heightAboveSurface (integrateHeight 1 (examplePlayer\<lparr>verticalVelocity := 10\<rparr>))
     > MAX_HEIGHT \<and>
   heightAboveSurface
     (updatePhysics (\<lambda>a b t. b) \<lparr>meshes = []\<rparr> 0 1 (examplePlayer\<lparr>verticalVelocity := 10\<rparr>))
     = MAX_HEIGHT \<and>
   verticalVelocity
     (updatePhysics (\<lambda>a b t. b) \<lparr>meshes = []\<rparr> 0 1 (examplePlayer\<lparr>verticalVelocity := 10\<rparr>))
     = 0"
proof -
  have h: "\<not> isRemotePlayer examplePlayer"
    by (simp add: examplePlayer_def newPlayer_def)
  have i: "heightAboveSurface (integrateHeight 1 examplePlayer) < 0.60"
    by (simp add: examplePlayer_def newPlayer_def integrateHeight_def updateFuel_def Let_def
        GRAVITY_FORCE_def)
  have h': "\<not> isRemotePlayer (examplePlayer\<lparr>verticalVelocity := 10\<rparr>)"
    by (simp add: examplePlayer_def newPlayer_def)
  have i': "heightAboveSurface (integrateHeight 1 (examplePlayer\<lparr>verticalVelocity := 10\<rparr>))
              > MAX_HEIGHT"
    by (simp add: examplePlayer_def newPlayer_def integrateHeight_def updateFuel_def Let_def
        GRAVITY_FORCE_def MAX_HEIGHT_def)
  show ?thesis
    using h i h' i'
      height_clamping [OF h, of "\<lambda>a b t. b" "\<lparr>meshes = []\<rparr>" 0 1]
      height_clamping [OF h', of "\<lambda>a b t. b" "\<lparr>meshes = []\<rparr>" 0 1]
    by simp
qed


section \<open>Remote players ignore local control\<close>

text \<open>
  C10. On a player marked remote by \<^verbatim>\<open>setAsRemotePlayer\<close>, the four movement
  operations, \<^verbatim>\<open>rotate\<close> and \<^verbatim>\<open>shoot\<close> return the player as it was, for every
  argument: position and orientation are unchanged, no projectile is created, and nothing
  is handed to the multiplayer manager.
\<close>

theorem remote_player_ignores_controls:
  "strafeLeft deltaTime (setAsRemotePlayer s) = setAsRemotePlayer s \<and>
   strafeRight deltaTime (setAsRemotePlayer s) = setAsRemotePlayer s \<and>
   moveForward deltaTime (setAsRemotePlayer s) = setAsRemotePlayer s \<and>
   moveBackward deltaTime (setAsRemotePlayer s) = setAsRemotePlayer s \<and>
   rotate_player deltaRadians (setAsRemotePlayer s) = setAsRemotePlayer s \<and>
   shoot meshId now (setAsRemotePlayer s) = (setAsRemotePlayer s, None)"
  by (simp add: setAsRemotePlayer_def strafeLeft_def strafeRight_def moveForward_def
      moveBackward_def rotate_player_def shoot_def)

text \<open>
  The same operations do act on the player before it is marked: a local player that
  shoots gets a projectile, the marked one keeps its empty list.
\<close>

theorem remote_player_ignores_controls_witness:
  "projectiles (fst (shoot 7 0 examplePlayer)) \<noteq> [] \<and>
   projectiles (fst (shoot 7 0 (setAsRemotePlayer examplePlayer)))
     = [] \<and>
   position (moveForward 1 (setAsRemotePlayer examplePlayer))
     = Vector3 0 0 4.6"
  using remote_player_ignores_controls
          [of 1 examplePlayer 0 7 0]
  by (simp add: shoot_def Let_def) (simp add: examplePlayer_def newPlayer_def setAsRemotePlayer_def)


section \<open>Projectile hits\<close>

lemma hitFilter_not_owner:
  "hitFilter p mesh \<Longrightarrow> m_metadata mesh \<noteq> Some (p_ownerUUID p) \<and> m_name mesh = ''player''"
  by (auto simp: hitFilter_def split: if_splits)

text \<open>
  C4. Whatever the scene holds, whatever the time and the state of the projectile, the
  mesh that \<^verbatim>\<open>update\<close> hands to the hit callback is a player mesh of the scene whose
  \<^verbatim>\<open>playerUUID\<close> metadata is not the projectile's \<^verbatim>\<open>ownerUUID\<close>.
\<close>

theorem projectile_never_hits_owner:
  assumes "snd (snd (Projectile_update scene now p)) = Some target"
  shows "m_metadata target \<noteq> Some (p_ownerUUID p) \<and> m_name target = ''player'' \<and>
         target \<in> set (meshes scene)"
proof -
  define p1 where
    "p1 = p\<lparr>p_position :=
              TransformCoordinates (p_position p)
                (RotationAxis
                   (normalize_v (Cross (p_startDirection p)
                                 (normalize_v (subtract Zero (p_position p)))))
                   (speed * 0.016))\<rparr>"
  have "\<exists>rest. filter (hitFilter p1) (meshes scene) = target # rest"
    using assms
    unfolding Projectile_update_def Let_def p1_def [symmetric]
    by (auto split: if_splits list.splits)
  then obtain rest where "filter (hitFilter p1) (meshes scene) = target # rest" ..
  then have "target \<in> set (filter (hitFilter p1) (meshes scene))"
    by simp
  then have "hitFilter p1 target" and "target \<in> set (meshes scene)"
    by auto
  moreover have "p_ownerUUID p1 = p_ownerUUID p"
    by (simp add: p1_def)
  ultimately show ?thesis
    using hitFilter_not_owner [of p1 target] by simp
qed

text \<open>
  A projectile of player \<open>''A''\<close> among two player meshes that both intersect it, the
  owner's first: the callback receives the mesh of \<open>''B''\<close>.
\<close>

theorem projectile_never_hits_owner_witness:
  "snd (snd (Projectile_update
               \<lparr>meshes = [playerMesh 1 ''A'' (\<lambda>_. True), playerMesh 2 ''B'' (\<lambda>_. True)]\<rparr>
               100
               (Projectile_new 3 0 (Vector3 0 0 4.6) (Vector3 1 0 0) 1.5 ''A'')))
     = Some (playerMesh 2 ''B'' (\<lambda>_. True)) \<and>
   m_metadata (playerMesh 2 ''B'' (\<lambda>_. True))
     \<noteq> Some (p_ownerUUID (Projectile_new 3 0 (Vector3 0 0 4.6) (Vector3 1 0 0) 1.5 ''A''))"
proof -
  have h: "snd (snd (Projectile_update
               \<lparr>meshes = [playerMesh 1 ''A'' (\<lambda>_. True), playerMesh 2 ''B'' (\<lambda>_. True)]\<rparr>
               100
               (Projectile_new 3 0 (Vector3 0 0 4.6) (Vector3 1 0 0) 1.5 ''A'')))
     = Some (playerMesh 2 ''B'' (\<lambda>_. True))"
    by (simp add: Projectile_update_def Projectile_new_def lifespan_def Let_def
        hitFilter_def playerMesh_def)
  show ?thesis
    using h projectile_never_hits_owner [OF h] by simp
qed


section \<open>Projectile lifespan and record lifetime\<close>

text \<open>
  C8, as the code has it. A projectile's simulated lifespan is 800 ms: an active
  projectile older than that is retired by \<^verbatim>\<open>update\<close> without a hit, and one no older
  is never retired for its age (it stays alive or reports a hit). Its replicated record
  lives 2,000 ms: the listener takes a foreign record exactly while its age is at most
  2,000 ms, the sweep keeps exactly the records of that age, and \<^verbatim>\<open>addProjectile\<close>
  schedules the removal 2,000 ms after the write.
\<close>

theorem projectile_lifespan_and_record_ttl:
  "(p_isActive p \<and> now - p_spawnTime p > 800 \<longrightarrow>
      Projectile_update scene now p = (False, Projectile_dispose p, None)) \<and>
   (p_isActive p \<and> now - p_spawnTime p \<le> 800 \<longrightarrow>
      fst (Projectile_update scene now p) \<or> snd (snd (Projectile_update scene now p)) \<noteq> None) \<and>
   (pj_ownerUUID projData \<noteq> playerUUID m \<longrightarrow>
      listensToProjectile m now projData = (now - pj_createdAt projData \<le> 2000)) \<and>
   projectilesDB (sweep now db)
     = filter (\<lambda>(projectileId, projectileData). now - pj_createdAt projectileData \<le> 2000)
         (projectilesDB db) \<and>
   removalTimers (fst (snd (addProjectile projectileId now pos direction (m, db))))
     = removalTimers m @ [(now + 2000, projectileId)]"
proof -
  have "projectilesDB (sweep now db)
     = filter (\<lambda>(projectileId, projectileData). now - pj_createdAt projectileData \<le> 2000)
         (projectilesDB db)"
    by (simp add: sweep_def not_less)
  moreover have "p_isActive p \<and> now - p_spawnTime p > 800 \<longrightarrow>
      Projectile_update scene now p = (False, Projectile_dispose p, None)"
    by (simp add: Projectile_update_def lifespan_def)
  moreover have "p_isActive p \<and> now - p_spawnTime p \<le> 800 \<longrightarrow>
      fst (Projectile_update scene now p) \<or> snd (snd (Projectile_update scene now p)) \<noteq> None"
    by (simp add: Projectile_update_def lifespan_def Let_def split: list.splits)
  moreover have "pj_ownerUUID projData \<noteq> playerUUID m \<longrightarrow>
      listensToProjectile m now projData = (now - pj_createdAt projData \<le> 2000)"
    by (auto simp: listensToProjectile_def)
  moreover have "removalTimers (fst (snd (addProjectile projectileId now pos direction (m, db))))
     = removalTimers m @ [(now + 2000, projectileId)]"
    by (simp add: addProjectile_def Let_def)
  ultimately show ?thesis by blast
qed

text \<open>
  Half a second after it was fired, a projectile of \<open>''A''\<close> is still alive; one second
  after, it is retired by the simulation, while a client \<open>''B''\<close> still takes its record,
  written when it was fired.
\<close>

theorem projectile_lifespan_and_record_ttl_witness:
  "p_isActive (Projectile_new 3 0 (Vector3 0 0 4.6) (Vector3 1 0 0) 1.5 ''A'') \<and>
   (500::int) - p_spawnTime (Projectile_new 3 0 (Vector3 0 0 4.6) (Vector3 1 0 0) 1.5 ''A'')
     \<le> 800 \<and>
   fst (Projectile_update \<lparr>meshes = []\<rparr> 500
          (Projectile_new 3 0 (Vector3 0 0 4.6) (Vector3 1 0 0) 1.5 ''A'')) \<and>
   (1000::int) - p_spawnTime (Projectile_new 3 0 (Vector3 0 0 4.6) (Vector3 1 0 0) 1.5 ''A'')
     > 800 \<and>
   Projectile_update \<lparr>meshes = []\<rparr> 1000
       (Projectile_new 3 0 (Vector3 0 0 4.6) (Vector3 1 0 0) 1.5 ''A'')
     = (False,
        Projectile_dispose (Projectile_new 3 0 (Vector3 0 0 4.6) (Vector3 1 0 0) 1.5 ''A''),
        None) \<and>
   pj_ownerUUID \<lparr>pj_id = ''k'', pj_position = Vector3 0 0 4.6, pj_direction = Vector3 1 0 0,
      pj_ownerUUID = ''A'', pj_createdAt = 0\<rparr> \<noteq> playerUUID (newManager ''B'') \<and>
   listensToProjectile (newManager ''B'') 1000
     \<lparr>pj_id = ''k'', pj_position = Vector3 0 0 4.6, pj_direction = Vector3 1 0 0,
      pj_ownerUUID = ''A'', pj_createdAt = 0\<rparr>"
proof -
  have a: "fst (Projectile_update \<lparr>meshes = []\<rparr> 500
             (Projectile_new 3 0 (Vector3 0 0 4.6) (Vector3 1 0 0) 1.5 ''A''))"
    by (simp add: Projectile_update_def Projectile_new_def lifespan_def Let_def)
  show ?thesis
    using a
      projectile_lifespan_and_record_ttl
          [of "Projectile_new 3 0 (Vector3 0 0 4.6) (Vector3 1 0 0) 1.5 ''A''" 1000
              "\<lparr>meshes = []\<rparr>"
              "\<lparr>pj_id = ''k'', pj_position = Vector3 0 0 4.6, pj_direction = Vector3 1 0 0,
                pj_ownerUUID = ''A'', pj_createdAt = 0\<rparr>"
              "newManager ''B''"]
    by (simp add: Projectile_new_def newManager_def)
qed

text \<open>
  Against C8 as stated (the record's 2,000 ms match the simulated lifespan): at the age
  of 1,000 ms the projectile has expired in the simulation and its record has not.
\<close>

theorem projectile_ttl_matches_lifespan_counterexample:
  "fst (Projectile_update \<lparr>meshes = []\<rparr> 1000
          (Projectile_new 3 0 (Vector3 0 0 4.6) (Vector3 1 0 0) 1.5 ''A'')) = False \<and>
   listensToProjectile (newManager ''B'') 1000
     \<lparr>pj_id = ''k'', pj_position = Vector3 0 0 4.6, pj_direction = Vector3 1 0 0,
      pj_ownerUUID = ''A'', pj_createdAt = 0\<rparr> = True \<and>
   lifespan \<noteq> 2000"
  by (simp add: Projectile_update_def Projectile_new_def lifespan_def
      listensToProjectile_def newManager_def)


section \<open>Publishing without an orientation\<close>

text \<open>
  C9. When the local player's mesh has no rotation quaternion and \<^verbatim>\<open>updatePlayerData\<close>
  gets as far as publishing (the call is not held back by the rate limit, at least
  \<open>updateInterval\<close> having passed since the last call that was not), the error is logged,
  the call returns normally, and the store is as it was: nothing is written.
\<close>

theorem missing_orientation_skips_write:
  assumes "rotationQuaternion localPlayer = None"
    and "currentTime - lastUpdateTime m \<ge> updateInterval"
  shows "snd (updatePlayerData currentTime localPlayer (m, db)) = db \<and>
         errorLog (fst (updatePlayerData currentTime localPlayer (m, db)))
           = errorLog m @ [''Player mesh missing rotation quaternion!''] \<and>
         fst (updatePlayerData currentTime localPlayer (m, db))
           = m\<lparr>lastUpdateTime := currentTime,
                errorLog := errorLog m @ [''Player mesh missing rotation quaternion!'']\<rparr>"
  using assms by (simp add: updatePlayerData_def Let_def)

text \<open>
  A player without orientation publishes 40 ms after the manager was created: the error
  is logged and the store, holding two players, stays as it is.
\<close>

theorem missing_orientation_skips_write_witness:
  "rotationQuaternion (examplePlayer\<lparr>rotationQuaternion := None\<rparr>) = None \<and>
   40 - lastUpdateTime (newManager ''a'') \<ge> updateInterval \<and>
   snd (updatePlayerData 40 (examplePlayer\<lparr>rotationQuaternion := None\<rparr>)
          (newManager ''a'', twoPlayers)) = twoPlayers \<and>
   errorLog (fst (updatePlayerData 40 (examplePlayer\<lparr>rotationQuaternion := None\<rparr>)
          (newManager ''a'', twoPlayers)))
     = [''Player mesh missing rotation quaternion!'']"
proof -
  have h: "rotationQuaternion (examplePlayer\<lparr>rotationQuaternion := None\<rparr>) = None"
    by simp
  have r: "40 - lastUpdateTime (newManager ''a'') \<ge> updateInterval"
    by (simp add: newManager_def updateInterval_def)
  show ?thesis
    using h r missing_orientation_skips_write [OF h r, of twoPlayers]
    by (simp add: newManager_def)
qed


section \<open>Cleanup leadership\<close>

text \<open>
  C7, as the code has it. After a call of \<^verbatim>\<open>cleanupStaleData\<close> the client is host
  exactly when it was host before, or the players collection is empty, or holds a single
  entry, or lists the client's identity first: a client that is not host re-evaluates at
  every call, and one that is host stays host. The store is swept exactly when the client
  is host after this check, and is left untouched otherwise.
\<close>

theorem cleanup_leadership:
  "isHost (fst (cleanupStaleData currentTime (m, db)))
     = (isHost m \<or> players db = [] \<or> length (players db) = 1 \<or>
        fst (hd (players db)) = playerUUID m) \<and>
   snd (cleanupStaleData currentTime (m, db))
     = (if isHost (fst (cleanupStaleData currentTime (m, db)))
        then sweep currentTime db else db)"
  by (cases "players db")
     (auto simp: cleanupStaleData_def hostCheck_def Let_def)

text \<open>
  In the store \<open>twoPlayers\<close>, at a time when its projectile record is 5 s old, the
  client \<open>''a''\<close> becomes host and removes the record; the client \<open>''b''\<close> does not become
  host and removes nothing.
\<close>

theorem cleanup_leadership_witness:
  "isHost (fst (cleanupStaleData 10000 (newManager ''a'', twoPlayers))) \<and>
   projectilesDB (snd (cleanupStaleData 10000 (newManager ''a'', twoPlayers))) = [] \<and>
   \<not> isHost (fst (cleanupStaleData 10000 (newManager ''b'', twoPlayers))) \<and>
   snd (cleanupStaleData 10000 (newManager ''b'', twoPlayers)) = twoPlayers"
  using cleanup_leadership [of 10000 "newManager ''a''" twoPlayers]
        cleanup_leadership [of 10000 "newManager ''b''" twoPlayers]
  by (simp add: newManager_def twoPlayers_def sweep_def)

text \<open>
  Against C7 as stated (every sweep re-evaluates leadership): the client \<open>''b''\<close>, host
  since it was alone, is listed second now; it is neither the sole participant nor the
  first, and it still sweeps and stays host.
\<close>

theorem cleanup_leadership_counterexample:
  "length (players twoPlayers) \<noteq> 1 \<and>
   fst (hd (players twoPlayers)) \<noteq> playerUUID ((newManager ''b'')\<lparr>isHost := True\<rparr>) \<and>
   isHost (fst (cleanupStaleData 10000 ((newManager ''b'')\<lparr>isHost := True\<rparr>, twoPlayers))) \<and>
   projectilesDB (snd (cleanupStaleData 10000 ((newManager ''b'')\<lparr>isHost := True\<rparr>, twoPlayers)))
     = [] \<and>
   projectilesDB twoPlayers \<noteq> []"
  by (simp add: cleanupStaleData_def newManager_def twoPlayers_def sweep_def)


section \<open>Surface lock\<close>

lemma moveAlongOrbit_lock:
  assumes p: "position s \<noteq> Zero"
    and c: "Cross crossAxis (normalize_v (subtract Zero (position s))) \<noteq> Zero \<or>
            cos (movementSpeed * deltaTime) \<noteq> 0"
    and r: "0 \<le> getBaseRadius + heightAboveSurface s"
  shows "length_v (position (moveAlongOrbit crossAxis deltaTime s))
           = getBaseRadius + heightAboveSurface (moveAlongOrbit crossAxis deltaTime s)"
proof -
  define axis where "axis = normalize_v (Cross crossAxis (normalize_v (subtract Zero (position s))))"
  define newPosition where
    "newPosition = TransformCoordinates (position s) (RotationAxis axis (movementSpeed * deltaTime))"
  have l: "length_v (position s) \<noteq> 0"
    using p by (simp add: length_v_eq_0)
  have "length_v newPosition \<noteq> 0"
  proof (cases "Cross crossAxis (normalize_v (subtract Zero (position s))) = Zero")
    case True
    then have "axis = Zero" by (simp add: axis_def normalize_Zero)
    then have "newPosition = scale (position s) (cos (movementSpeed * deltaTime))"
      by (simp add: newPosition_def rotate_Zero_axis)
    then show ?thesis
      using True c l by (simp add: length_v_scale)
  next
    case False
    then have "length_v axis = 1"
      by (simp add: axis_def length_v_normalize)
    then have "length_v newPosition = length_v (position s)"
      by (simp add: newPosition_def length_v_rotate)
    then show ?thesis using l by simp
  qed
  then have n: "newPosition \<noteq> Zero"
    by (simp add: length_v_eq_0)
  have "position (moveAlongOrbit crossAxis deltaTime s)
          = scale (normalize_v newPosition) (getBaseRadius + heightAboveSurface s)"
    by (simp add: moveAlongOrbit_def Let_def newPosition_def axis_def)
  moreover have "heightAboveSurface (moveAlongOrbit crossAxis deltaTime s) = heightAboveSurface s"
    by (simp add: moveAlongOrbit_def Let_def)
  ultimately show ?thesis
    using length_v_reproject [OF n r] by simp
qed

lemma updatePhysics_lock:
  assumes p: "position s \<noteq> Zero" and l: "\<not> isRemotePlayer s"
  shows "length_v (position (updatePhysics slerp scene now deltaTime s))
           = getBaseRadius + heightAboveSurface (updatePhysics slerp scene now deltaTime s)"
proof -
  have "0 \<le> getBaseRadius + heightAboveSurface (clampHeight (integrateHeight deltaTime s))"
    using clampHeight_range [of "integrateHeight deltaTime s"] by (simp add: getBaseRadius_def)
  then show ?thesis
    using length_v_reproject [OF p] by (simp add: updatePhysics_local [OF l])
qed

text \<open>
  C1. From every position but the centre of the planet, hence from every position on a
  player's sphere, and for every \<open>deltaTime\<close>: a step of \<^verbatim>\<open>moveAlongOrbit\<close> (at an orbit
  radius that is not negative, along an axis that is not radial or by an angle whose
  cosine is not zero) and a physics tick of a local player leave the position at distance
  \<open>planetRadius + heightAboveSurface\<close> from the centre; and the four movement operations
  of a local player are such steps, along the forward and right directions and their
  opposites.
\<close>

theorem surface_lock:
  assumes "position s \<noteq> Zero"
  shows "((Cross crossAxis (normalize_v (subtract Zero (position s))) \<noteq> Zero \<or>
           cos (movementSpeed * deltaTime) \<noteq> 0) \<and>
          0 \<le> getBaseRadius + heightAboveSurface s \<longrightarrow>
            length_v (position (moveAlongOrbit crossAxis deltaTime s))
              = getBaseRadius + heightAboveSurface (moveAlongOrbit crossAxis deltaTime s)) \<and>
         (\<not> isRemotePlayer s \<longrightarrow>
            length_v (position (updatePhysics slerp scene now deltaTime s))
              = getBaseRadius + heightAboveSurface (updatePhysics slerp scene now deltaTime s)) \<and>
         (\<not> isRemotePlayer s \<longrightarrow>
            moveForward deltaTime s = moveAlongOrbit (forward s) deltaTime s \<and>
            moveBackward deltaTime s = moveAlongOrbit (scale (forward s) (- 1)) deltaTime s \<and>
            strafeRight deltaTime s = moveAlongOrbit (right s) deltaTime s \<and>
            strafeLeft deltaTime s = moveAlongOrbit (scale (right s) (- 1)) deltaTime s)"
  using moveAlongOrbit_lock [OF assms] updatePhysics_lock [OF assms]
  by (simp add: moveForward_def moveBackward_def strafeRight_def strafeLeft_def)

text \<open>
  The player spawned at \<open>(0, 0, 4.6)\<close>, on its sphere, moves forward for 16 ms and
  lives through a physics tick: the distance from the centre is 4.6 both times.
\<close>

theorem surface_lock_witness:
  "length_v (position examplePlayer) = getBaseRadius + heightAboveSurface examplePlayer \<and>
   position examplePlayer \<noteq> Zero \<and>
   Cross (forward examplePlayer) (normalize_v (subtract Zero (position examplePlayer))) \<noteq> Zero \<and>
   0 \<le> getBaseRadius + heightAboveSurface examplePlayer \<and>
   \<not> isRemotePlayer examplePlayer \<and>
   length_v (position (moveForward 0.016 examplePlayer)) = 4.6 \<and>
   length_v (position (updatePhysics (\<lambda>a b t. b) \<lparr>meshes = []\<rparr> 0 0.016 examplePlayer)) = 4.6"
proof -
  have p: "position examplePlayer \<noteq> Zero"
    by (simp add: examplePlayer_def newPlayer_def Zero_def)
  have f: "forward examplePlayer = Vector3 1 0 0"
    by (simp add: examplePlayer_def newPlayer_def forward_def FromXYZAxes_def
        TransformNormal_def scale_def normalize_x)
  have c: "Cross (forward examplePlayer) (normalize_v (subtract Zero (position examplePlayer)))
             \<noteq> Zero"
    unfolding f
    by (simp add: examplePlayer_def newPlayer_def Zero_def subtract_def normalize_z Cross_def)
  have l: "\<not> isRemotePlayer examplePlayer"
    by (simp add: examplePlayer_def newPlayer_def)
  have h: "heightAboveSurface (moveAlongOrbit (forward examplePlayer) 0.016 examplePlayer) = 0.6"
    by (simp add: moveAlongOrbit_def Let_def examplePlayer_def newPlayer_def)
  have i: "heightAboveSurface (integrateHeight 0.016 examplePlayer) < 0.60"
    by (simp add: examplePlayer_def newPlayer_def integrateHeight_def updateFuel_def Let_def
        GRAVITY_FORCE_def)
  have g: "heightAboveSurface
             (updatePhysics (\<lambda>a b t. b) \<lparr>meshes = []\<rparr> 0 0.016 examplePlayer) = 0.6"
    using i by (simp add: updatePhysics_local [OF l] clampHeight_def)
  have r: "0 \<le> getBaseRadius + heightAboveSurface examplePlayer"
    by (simp add: examplePlayer_def newPlayer_def getBaseRadius_def)
  have o: "length_v (position examplePlayer) = getBaseRadius + heightAboveSurface examplePlayer"
    by (simp add: examplePlayer_def newPlayer_def getBaseRadius_def length_v_z)
  show ?thesis
    using o p c l r h g
      surface_lock [OF p, of "forward examplePlayer" "0.016" "\<lambda>a b t. b" "\<lparr>meshes = []\<rparr>" 0]
    by (simp add: getBaseRadius_def)
qed


section \<open>Remote interpolation\<close>

lemma moveVector_bound:
  assumes "0 \<le> maxPositionDelta"
  shows "length_v (moveVector maxPositionDelta toTarget estVel) \<le> maxPositionDelta"
proof -
  define mv1 where
    "mv1 = (case estVel of
              None \<Rightarrow> scale toTarget (min 1.0 SMOOTHING_FACTOR)
            | Some v \<Rightarrow> if length_v v > 0.001
                        then add (scale toTarget (min 1.0 SMOOTHING_FACTOR)) (scale v 0.2)
                        else scale toTarget (min 1.0 SMOOTHING_FACTOR))"
  have m: "moveVector maxPositionDelta toTarget estVel
             = (if length_v mv1 > maxPositionDelta
                then scale (normalize_v mv1) maxPositionDelta else mv1)"
    unfolding moveVector_def Let_def mv1_def ..
  show ?thesis
  proof (cases "length_v mv1 > maxPositionDelta")
    case True
    then have "mv1 \<noteq> Zero"
      using assms length_v_eq_0 [of mv1] by auto
    then show ?thesis
      using True assms by (simp add: m length_v_reproject)
  next
    case False
    then show ?thesis by (simp add: m)
  qed
qed

text \<open>
  What a tick of \<^verbatim>\<open>updateRemoteInterpolation\<close> leaves in the fields of the position
  and height smoothing, for a player with a target and an interpolated position.
\<close>

lemma interpolateRotation_frame:
  "remoteHeightAboveSurface (interpolateRotation slerp deltaTime s) = remoteHeightAboveSurface s"
  "currentInterpolatedPosition (interpolateRotation slerp deltaTime s)
     = currentInterpolatedPosition s"
  "targetPosition (interpolateRotation slerp deltaTime s) = targetPosition s"
  "estimatedVelocity (interpolateRotation slerp deltaTime s) = estimatedVelocity s"
  "targetHeight (interpolateRotation slerp deltaTime s) = targetHeight s"
  by (simp_all add: interpolateRotation_def Let_def split: option.splits)

lemma interpolatePosition_frame:
  "remoteHeightAboveSurface (interpolatePosition deltaTime target cur s)
     = remoteHeightAboveSurface s"
  "targetPosition (interpolatePosition deltaTime target cur s) = targetPosition s"
  "estimatedVelocity (interpolatePosition deltaTime target cur s) = estimatedVelocity s"
  "targetHeight (interpolatePosition deltaTime target cur s) = targetHeight s"
  by (simp_all add: interpolatePosition_def Let_def)

lemma interpolatePosition_current:
  "currentInterpolatedPosition (interpolatePosition deltaTime target cur s)
     = (if length_v (subtract target cur) > 0.0001
        then Some (scale
               (normalize_v
                  (add cur (moveVector (POSITION_INTERPOLATION_SPEED * deltaTime)
                              (subtract target cur) (estimatedVelocity s))))
               (getBaseRadius + remoteHeightAboveSurface s))
        else currentInterpolatedPosition s)"
  by (simp add: interpolatePosition_def Let_def)

lemma interpolateHeight_frame:
  "currentInterpolatedPosition (interpolateHeight deltaTime s) = currentInterpolatedPosition s"
  "targetPosition (interpolateHeight deltaTime s) = targetPosition s"
  "estimatedVelocity (interpolateHeight deltaTime s) = estimatedVelocity s"
  "targetHeight (interpolateHeight deltaTime s) = targetHeight s"
  by (simp_all add: interpolateHeight_def Let_def)

lemma interpolateHeight_other:
  "remoteHeightAboveSurface (interpolateHeight deltaTime (s\<lparr>currentInterpolatedRotation := r\<rparr>))
     = remoteHeightAboveSurface (interpolateHeight deltaTime s)"
  by (simp add: interpolateHeight_def Let_def)

lemma updateRemoteInterpolation_fields:
  assumes t: "targetPosition s = Some target" and c: "currentInterpolatedPosition s = Some cur"
  shows "remoteHeightAboveSurface (updateRemoteInterpolation slerp deltaTime s)
           = remoteHeightAboveSurface (interpolateHeight deltaTime s)"
    and "currentInterpolatedPosition (updateRemoteInterpolation slerp deltaTime s)
           = (if length_v (subtract target cur) > 0.0001
              then Some (scale
                     (normalize_v
                        (add cur (moveVector (POSITION_INTERPOLATION_SPEED * deltaTime)
                                    (subtract target cur) (estimatedVelocity s))))
                     (getBaseRadius + remoteHeightAboveSurface (interpolateHeight deltaTime s)))
              else Some cur)"
    and "targetPosition (updateRemoteInterpolation slerp deltaTime s) = Some target"
    and "estimatedVelocity (updateRemoteInterpolation slerp deltaTime s) = estimatedVelocity s"
    and "targetHeight (updateRemoteInterpolation slerp deltaTime s) = targetHeight s"
proof -
  define s2 where
    "s2 = (if targetRotation s \<noteq> None \<and> currentInterpolatedRotation s = None
           then s\<lparr>currentInterpolatedRotation :=
                    Some (case rotationQuaternion s of Some q \<Rightarrow> q | None \<Rightarrow> Identity)\<rparr>
           else s)"
  have s1: "s\<lparr>currentInterpolatedPosition := Some cur\<rparr> = s"
    using c by simp
  have u: "updateRemoteInterpolation slerp deltaTime s
             = interpolateRotation slerp deltaTime
                 (interpolatePosition deltaTime target cur (interpolateHeight deltaTime s2))"
    unfolding updateRemoteInterpolation_def Let_def t c option.case s1 s2_def ..
  have f: "currentInterpolatedPosition s2 = Some cur" "targetPosition s2 = Some target"
    "estimatedVelocity s2 = estimatedVelocity s" "targetHeight s2 = targetHeight s"
    using t c by (simp_all add: s2_def)
  have h: "remoteHeightAboveSurface (interpolateHeight deltaTime s2)
             = remoteHeightAboveSurface (interpolateHeight deltaTime s)"
    by (simp add: s2_def interpolateHeight_other)
  show "remoteHeightAboveSurface (updateRemoteInterpolation slerp deltaTime s)
           = remoteHeightAboveSurface (interpolateHeight deltaTime s)"
    by (simp only: u interpolateRotation_frame interpolatePosition_frame h)
  show "currentInterpolatedPosition (updateRemoteInterpolation slerp deltaTime s)
           = (if length_v (subtract target cur) > 0.0001
              then Some (scale
                     (normalize_v
                        (add cur (moveVector (POSITION_INTERPOLATION_SPEED * deltaTime)
                                    (subtract target cur) (estimatedVelocity s))))
                     (getBaseRadius + remoteHeightAboveSurface (interpolateHeight deltaTime s)))
              else Some cur)"
    by (simp only: u interpolateRotation_frame interpolatePosition_current
        interpolateHeight_frame h f)
  show "targetPosition (updateRemoteInterpolation slerp deltaTime s) = Some target"
    by (simp only: u interpolateRotation_frame interpolatePosition_frame
        interpolateHeight_frame f)
  show "estimatedVelocity (updateRemoteInterpolation slerp deltaTime s) = estimatedVelocity s"
    by (simp only: u interpolateRotation_frame interpolatePosition_frame
        interpolateHeight_frame f)
  show "targetHeight (updateRemoteInterpolation slerp deltaTime s) = targetHeight s"
    by (simp only: u interpolateRotation_frame interpolatePosition_frame
        interpolateHeight_frame f)
qed

text \<open>
  C6, as the code has it. In a tick with \<open>deltaTime \<ge> 0\<close> the vector added to the
  interpolated position is at most \<open>POSITION_INTERPOLATION_SPEED * deltaTime\<close> long. The
  new interpolated position is that sum re-projected to the interpolated height, and the
  re-projection is not part of the bound.
\<close>

theorem interpolation_step_bound:
  assumes "0 \<le> deltaTime"
  shows "length_v (moveVector (POSITION_INTERPOLATION_SPEED * deltaTime) toTarget estVel)
           \<le> POSITION_INTERPOLATION_SPEED * deltaTime \<and>
         (targetPosition s = Some target \<and> currentInterpolatedPosition s = Some cur \<and>
          length_v (subtract target cur) > 0.0001 \<longrightarrow>
            currentInterpolatedPosition (updateRemoteInterpolation slerp deltaTime s)
              = Some (scale
                  (normalize_v
                     (add cur (moveVector (POSITION_INTERPOLATION_SPEED * deltaTime)
                                 (subtract target cur) (estimatedVelocity s))))
                  (getBaseRadius
                     + remoteHeightAboveSurface (updateRemoteInterpolation slerp deltaTime s))))"
proof -
  have "0 \<le> POSITION_INTERPOLATION_SPEED * deltaTime"
    using assms by (simp add: POSITION_INTERPOLATION_SPEED_def)
  then show ?thesis
    using moveVector_bound [of "POSITION_INTERPOLATION_SPEED * deltaTime" toTarget estVel]
    by (simp add: updateRemoteInterpolation_fields)
qed

lemma respawnedRemote_tick:
  "currentInterpolatedPosition (updateRemoteInterpolation slerp 0.016 respawnedRemote)
     = Some (Vector3 0 0 6.52)"
proof -
  have t: "targetPosition respawnedRemote = Some (Vector3 0 0 4.6)"
    and c: "currentInterpolatedPosition respawnedRemote = Some (Vector3 0 0 7)"
    and v: "estimatedVelocity respawnedRemote = None"
    by (simp_all add: respawnedRemote_def newPlayer_def)
  have h: "remoteHeightAboveSurface (interpolateHeight 0.016 respawnedRemote) = 2.52"
    by (simp add: interpolateHeight_def respawnedRemote_def newPlayer_def Let_def
        HEIGHT_SMOOTHING_FACTOR_def)
  have d: "subtract (Vector3 0 0 4.6) (Vector3 0 0 7) = Vector3 0 0 (- 2.4)"
    by (simp add: subtract_def)
  have m: "moveVector (POSITION_INTERPOLATION_SPEED * 0.016) (Vector3 0 0 (- 2.4)) None
             = Vector3 0 0 (- 0.24)"
    by (simp add: moveVector_def Let_def POSITION_INTERPOLATION_SPEED_def SMOOTHING_FACTOR_def
        scale_def length_v_z normalize_z)
  show ?thesis
    unfolding updateRemoteInterpolation_fields(2) [OF t c] d v m h
    by (simp add: length_v_z add_def normalize_z scale_def getBaseRadius_def)
qed

text \<open>
  The remote player whose sender has respawned, over a tick of 16 ms: the vector added
  is 0.24 long, the bound, and the interpolated position goes from radius 7 to 6.52.
\<close>

theorem interpolation_step_bound_witness:
  "(0::real) \<le> 0.016 \<and>
   targetPosition respawnedRemote = Some (Vector3 0 0 4.6) \<and>
   currentInterpolatedPosition respawnedRemote = Some (Vector3 0 0 7) \<and>
   length_v (subtract (Vector3 0 0 4.6) (Vector3 0 0 7)) > 0.0001 \<and>
   length_v (moveVector (POSITION_INTERPOLATION_SPEED * 0.016)
               (subtract (Vector3 0 0 4.6) (Vector3 0 0 7)) (estimatedVelocity respawnedRemote))
     \<le> POSITION_INTERPOLATION_SPEED * 0.016 \<and>
   currentInterpolatedPosition (updateRemoteInterpolation (\<lambda>a b t. b) 0.016 respawnedRemote)
     = Some (scale
         (normalize_v
            (add (Vector3 0 0 7)
               (moveVector (POSITION_INTERPOLATION_SPEED * 0.016)
                  (subtract (Vector3 0 0 4.6) (Vector3 0 0 7))
                  (estimatedVelocity respawnedRemote))))
         (getBaseRadius
            + remoteHeightAboveSurface
                (updateRemoteInterpolation (\<lambda>a b t. b) 0.016 respawnedRemote)))"
proof -
  have z: "(0::real) \<le> 0.016" by simp
  have t: "targetPosition respawnedRemote = Some (Vector3 0 0 4.6)"
    and c: "currentInterpolatedPosition respawnedRemote = Some (Vector3 0 0 7)"
    by (simp_all add: respawnedRemote_def newPlayer_def)
  have d: "length_v (subtract (Vector3 0 0 4.6) (Vector3 0 0 7)) > 0.0001"
    by (simp add: subtract_def length_v_z)
  show ?thesis
    using z t c d
      interpolation_step_bound
        [OF z, of "subtract (Vector3 0 0 4.6) (Vector3 0 0 7)"
           "estimatedVelocity respawnedRemote" respawnedRemote "Vector3 0 0 4.6"
           "Vector3 0 0 7" "\<lambda>a b t. b"]
    by blast
qed

text \<open>
  Against C6 as stated (the bound holds after the re-projection): in that tick the
  interpolated position moves by 0.48, twice the bound of 0.24.
\<close>

theorem interpolation_step_bound_counterexample:
  "currentInterpolatedPosition respawnedRemote = Some (Vector3 0 0 7) \<and>
   currentInterpolatedPosition (updateRemoteInterpolation (\<lambda>a b t. b) 0.016 respawnedRemote)
     = Some (Vector3 0 0 6.52) \<and>
   length_v (subtract (Vector3 0 0 6.52) (Vector3 0 0 7)) = 0.48 \<and>
   POSITION_INTERPOLATION_SPEED * 0.016 = 0.24"
  using respawnedRemote_tick [of "\<lambda>a b t. b"]
  by (simp add: subtract_def length_v_z POSITION_INTERPOLATION_SPEED_def)
     (simp add: respawnedRemote_def newPlayer_def)


section \<open>Interpolation without new samples\<close>

lemma scale_scale: "scale (scale v a) b = scale v (a * b)"
  by (simp add: scale_def algebra_simps)

lemma moveVector_fraction:
  assumes m: "0 \<le> maxPositionDelta"
    and v: "case estVel of None \<Rightarrow> True | Some v \<Rightarrow> length_v v \<le> 0.001"
  shows "\<exists>k. 0 \<le> k \<and> k \<le> 1 / 4 \<and> moveVector maxPositionDelta toTarget estVel = scale toTarget k"
proof -
  define mv1 where "mv1 = scale toTarget (1 / 4)"
  have s: "min 1.0 SMOOTHING_FACTOR = 1 / 4"
    by (simp add: SMOOTHING_FACTOR_def)
  have e: "moveVector maxPositionDelta toTarget estVel
             = (if length_v mv1 > maxPositionDelta
                then scale (normalize_v mv1) maxPositionDelta else mv1)"
    using v unfolding moveVector_def Let_def s mv1_def
    by (cases estVel) (simp_all add: not_less [symmetric])
  show ?thesis
  proof (cases "length_v mv1 > maxPositionDelta")
    case True
    then have p: "0 < length_v mv1" using m by simp
    have "moveVector maxPositionDelta toTarget estVel
            = scale toTarget (1 / 4 * (1 / length_v mv1 * maxPositionDelta))"
      using True by (simp add: e normalize_scale scale_scale mv1_def mult.assoc)
    moreover have "0 \<le> 1 / 4 * (1 / length_v mv1 * maxPositionDelta)"
      using m p by simp
    moreover have "1 / length_v mv1 * maxPositionDelta \<le> 1"
      using True p by (simp add: field_simps)
    then have "1 / 4 * (1 / length_v mv1 * maxPositionDelta) \<le> 1 / 4"
      by simp
    ultimately show ?thesis by blast
  next
    case False
    then have "moveVector maxPositionDelta toTarget estVel = scale toTarget (1 / 4)"
      by (simp add: e mv1_def)
    then show ?thesis by (intro exI [of _ "1 / 4"]) simp
  qed
qed

lemma interpolateHeight_rest:
  "remoteHeightAboveSurface s = targetHeight s \<Longrightarrow> interpolateHeight deltaTime s = s"
  by (simp add: interpolateHeight_def)

lemma starved_tick:
  assumes dt: "0 \<le> deltaTime" and o: "onTargetSphere s"
    and t: "targetPosition s = Some target" and c: "currentInterpolatedPosition s = Some cur"
  shows "\<exists>k. 0 \<le> k \<and> k \<le> 1 / 4 \<and>
           currentInterpolatedPosition (updateRemoteInterpolation slerp deltaTime s)
             = Some (scale (normalize_v (add cur (scale (subtract target cur) k)))
                       (getBaseRadius + targetHeight s))"
proof -
  have h: "remoteHeightAboveSurface s = targetHeight s"
    and v: "case estimatedVelocity s of None \<Rightarrow> True | Some v \<Rightarrow> length_v v \<le> 0.001"
    and lc: "length_v cur = getBaseRadius + targetHeight s"
    using o t c by (simp_all add: onTargetSphere_def)
  show ?thesis
  proof (cases "length_v (subtract target cur) > 0.0001")
    case True
    have "0 \<le> POSITION_INTERPOLATION_SPEED * deltaTime"
      using dt by (simp add: POSITION_INTERPOLATION_SPEED_def)
    then obtain k where k: "0 \<le> k" "k \<le> 1 / 4"
      and mv: "moveVector (POSITION_INTERPOLATION_SPEED * deltaTime) (subtract target cur)
                 (estimatedVelocity s) = scale (subtract target cur) k"
      using moveVector_fraction [OF _ v] by blast
    have "currentInterpolatedPosition (updateRemoteInterpolation slerp deltaTime s)
             = Some (scale (normalize_v (add cur (scale (subtract target cur) k)))
                       (getBaseRadius + targetHeight s))"
      using True by (simp add: updateRemoteInterpolation_fields(2) [OF t c] mv
          interpolateHeight_rest [OF h] h)
    then show ?thesis using k by blast
  next
    case False
    then have "currentInterpolatedPosition (updateRemoteInterpolation slerp deltaTime s)
             = Some cur"
      by (simp add: updateRemoteInterpolation_fields(2) [OF t c])
    then have "currentInterpolatedPosition (updateRemoteInterpolation slerp deltaTime s)
             = Some (scale (normalize_v (add cur (scale (subtract target cur) 0)))
                       (getBaseRadius + targetHeight s))"
      by (simp add: reproject_fixed [OF lc])
    then show ?thesis by (intro exI [of _ 0]) simp
  qed
qed

lemma starved_step:
  assumes dt: "0 \<le> deltaTime" and o: "onTargetSphere s"
  shows "onTargetSphere (updateRemoteInterpolation slerp deltaTime s)"
    and "targetPosition (updateRemoteInterpolation slerp deltaTime s) = targetPosition s"
    and "estimatedVelocity (updateRemoteInterpolation slerp deltaTime s) = estimatedVelocity s"
    and "targetHeight (updateRemoteInterpolation slerp deltaTime s) = targetHeight s"
    and "distanceToTarget (updateRemoteInterpolation slerp deltaTime s) \<le> distanceToTarget s"
proof -
  obtain target cur where t: "targetPosition s = Some target"
    and c: "currentInterpolatedPosition s = Some cur"
    using o by (auto simp: onTargetSphere_def split: option.splits)
  have h: "remoteHeightAboveSurface s = targetHeight s"
    and v: "case estimatedVelocity s of None \<Rightarrow> True | Some v \<Rightarrow> length_v v \<le> 0.001"
    and lt: "length_v target = getBaseRadius + targetHeight s"
    and lc: "length_v cur = getBaseRadius + targetHeight s"
    using o t c by (simp_all add: onTargetSphere_def)
  define s' where "s' = updateRemoteInterpolation slerp deltaTime s"
  obtain k where k: "0 \<le> k" "k \<le> 1 / 4"
    and c': "currentInterpolatedPosition s'
               = Some (scale (normalize_v (add cur (scale (subtract target cur) k)))
                         (getBaseRadius + targetHeight s))"
    using starved_tick [OF dt o t c] unfolding s'_def by blast
  have t': "targetPosition s' = Some target"
    and v': "estimatedVelocity s' = estimatedVelocity s"
    and g': "targetHeight s' = targetHeight s"
    and h': "remoteHeightAboveSurface s' = targetHeight s"
    unfolding s'_def
    by (simp_all add: updateRemoteInterpolation_fields [OF t c] interpolateHeight_rest [OF h] h)
  show "targetPosition (updateRemoteInterpolation slerp deltaTime s) = targetPosition s"
    using t' t by (simp add: s'_def)
  show "estimatedVelocity (updateRemoteInterpolation slerp deltaTime s) = estimatedVelocity s"
    using v' by (simp add: s'_def)
  show "targetHeight (updateRemoteInterpolation slerp deltaTime s) = targetHeight s"
    using g' by (simp add: s'_def)
  have "onTargetSphere s'"
    using v by (simp add: onTargetSphere_def t' c' v' g' h' lt reproject_radius [OF k lc lt])
  then show "onTargetSphere (updateRemoteInterpolation slerp deltaTime s)"
    by (simp add: s'_def)
  have "distanceToTarget s' \<le> distanceToTarget s"
    using reproject_closer [OF k lc lt] by (simp add: distanceToTarget_def t c t' c')
  then show "distanceToTarget (updateRemoteInterpolation slerp deltaTime s) \<le> distanceToTarget s"
    by (simp add: s'_def)
qed

lemma starved_run:
  assumes dt: "0 \<le> deltaTime" and o: "onTargetSphere s"
  shows "onTargetSphere ((updateRemoteInterpolation slerp deltaTime ^^ n) s) \<and>
         targetPosition ((updateRemoteInterpolation slerp deltaTime ^^ n) s) = targetPosition s \<and>
         estimatedVelocity ((updateRemoteInterpolation slerp deltaTime ^^ n) s)
           = estimatedVelocity s \<and>
         targetHeight ((updateRemoteInterpolation slerp deltaTime ^^ n) s) = targetHeight s"
proof (induction n)
  case 0
  then show ?case using o by simp
next
  case (Suc n)
  then show ?case
    using starved_step(1-4) [OF dt, of "(updateRemoteInterpolation slerp deltaTime ^^ n) s" slerp]
    by simp
qed


text \<open>
  With a negligible velocity estimate the vector added is the offset to the target,
  scaled by a quarter or, when that is longer than the cap, by the cap over the distance.
\<close>

lemma moveVector_explicit:
  assumes m: "0 \<le> maxPositionDelta"
    and v: "case estVel of None \<Rightarrow> True | Some v \<Rightarrow> length_v v \<le> 0.001"
    and p: "0 < length_v toTarget"
  shows "moveVector maxPositionDelta toTarget estVel
           = scale toTarget (min (1 / 4) (maxPositionDelta / length_v toTarget))"
proof -
  define mv1 where "mv1 = scale toTarget (1 / 4)"
  define l where "l = length_v toTarget"
  have l: "0 < l" using p by (simp add: l_def)
  have s: "min 1.0 SMOOTHING_FACTOR = 1 / 4"
    by (simp add: SMOOTHING_FACTOR_def)
  have e: "moveVector maxPositionDelta toTarget estVel
             = (if length_v mv1 > maxPositionDelta
                then scale (normalize_v mv1) maxPositionDelta else mv1)"
    using v unfolding moveVector_def Let_def s mv1_def
    by (cases estVel) (simp_all add: not_less [symmetric])
  have lm: "length_v mv1 = l / 4"
    by (simp add: mv1_def length_v_scale l_def)
  show ?thesis
  proof (cases "length_v mv1 > maxPositionDelta")
    case True
    then have "maxPositionDelta / l < 1 / 4"
      using l by (simp add: lm field_simps)
    then have "min (1 / 4) (maxPositionDelta / l) = maxPositionDelta / l"
      by simp
    moreover have "moveVector maxPositionDelta toTarget estVel
            = scale toTarget (1 / 4 * (1 / length_v mv1 * maxPositionDelta))"
      using True by (simp add: e normalize_scale scale_scale mv1_def mult.assoc)
    moreover have "1 / 4 * (1 / length_v mv1 * maxPositionDelta) = maxPositionDelta / l"
      using l by (simp add: lm)
    ultimately show ?thesis
      unfolding l_def [symmetric] by (simp only:)
  next
    case False
    then have "1 / 4 \<le> maxPositionDelta / l"
      using l by (simp add: lm field_simps)
    then have "min (1 / 4) (maxPositionDelta / l) = 1 / 4"
      by simp
    moreover have "moveVector maxPositionDelta toTarget estVel = scale toTarget (1 / 4)"
      using False by (simp add: e mv1_def)
    ultimately show ?thesis
      unfolding l_def [symmetric] by (simp only:)
  qed
qed

lemma starved_tick_far:
  assumes dt: "0 \<le> deltaTime" and o: "onTargetSphere s"
    and t: "targetPosition s = Some target" and c: "currentInterpolatedPosition s = Some cur"
    and far: "length_v (subtract target cur) > 0.0001"
  shows "currentInterpolatedPosition (updateRemoteInterpolation slerp deltaTime s)
           = Some (scale (normalize_v (add cur (scale (subtract target cur)
                      (min (1 / 4) (POSITION_INTERPOLATION_SPEED * deltaTime
                                      / length_v (subtract target cur))))))
                     (getBaseRadius + targetHeight s))"
proof -
  have h: "remoteHeightAboveSurface s = targetHeight s"
    and v: "case estimatedVelocity s of None \<Rightarrow> True | Some v \<Rightarrow> length_v v \<le> 0.001"
    using o t c by (simp_all add: onTargetSphere_def)
  have m: "0 \<le> POSITION_INTERPOLATION_SPEED * deltaTime"
    using dt by (simp add: POSITION_INTERPOLATION_SPEED_def)
  have "(0::real) < 0.0001" by simp
  then have p: "0 < length_v (subtract target cur)"
    using far by (rule less_trans)
  show ?thesis
    using far by (simp add: updateRemoteInterpolation_fields(2) [OF t c]
        moveVector_explicit [OF m v p] interpolateHeight_rest [OF h] h)
qed

text \<open>
  One tick of a remote player at rest in height, farther than the threshold from its
  target: the fraction of the chord that is stepped is at least \<open>\<kappa>\<close>, the smaller of a
  quarter and the cap over the diameter.
\<close>

lemma starved_progress:
  assumes dt: "0 < deltaTime" and o: "onTargetSphere s"
    and R: "R = getBaseRadius + targetHeight s"
    and K: "\<kappa> = min (1 / 4) (POSITION_INTERPOLATION_SPEED * deltaTime / (2 * R))"
    and D: "D = distanceToTarget s"
    and D': "D' = distanceToTarget (updateRemoteInterpolation slerp deltaTime s)"
    and far: "0.0001 < D"
  shows "0 < R" and "0 < \<kappa>" and "\<kappa> \<le> 1 / 4" and "D \<le> 2 * R"
    and "D < 2 * R \<Longrightarrow> D' < D"
    and "D * D \<le> 2 * (R * R) \<Longrightarrow> D' * D' \<le> (1 - \<kappa>) * (D * D)"
    and "2 * (R * R) < D * D \<Longrightarrow>
           D' * D' \<le> 2 * (R * R) \<or>
           (1 + \<kappa> * \<kappa> / 2) * (4 * (R * R) - D * D) \<le> 4 * (R * R) - D' * D'"
proof -
  obtain target cur where t: "targetPosition s = Some target"
    and c: "currentInterpolatedPosition s = Some cur"
    using o by (auto simp: onTargetSphere_def split: option.splits)
  have lt: "length_v target = R" and lc: "length_v cur = R"
    using o t c by (simp_all add: onTargetSphere_def R)
  have Dv: "D = length_v (subtract target cur)"
    by (simp add: D distanceToTarget_def t c)
  have "(0::real) < 0.0001" by simp
  then have p: "0 < D" using far by (rule less_trans)
  have "R \<noteq> 0"
  proof
    assume "R = 0"
    then have "cur = Zero" and "target = Zero"
      using lt lc by (simp_all add: length_v_eq_0)
    then have "D = 0"
      by (simp add: Dv subtract_def Zero_def length_v_def)
    then show False using p by simp
  qed
  then show R0: "0 < R"
    using lc length_v_nonneg [of cur] by simp
  define m where "m = POSITION_INTERPOLATION_SPEED * deltaTime"
  have m: "0 < m"
    using dt by (simp add: m_def POSITION_INTERPOLATION_SPEED_def)
  define k where "k = min (1 / 4) (m / D)"
  have k0: "0 < k" using m p by (simp add: k_def)
  have k1: "k \<le> 1 / 4" unfolding k_def by (rule min.cobounded1)
  have far': "length_v (subtract target cur) > 0.0001"
    using far unfolding Dv .
  have c': "currentInterpolatedPosition (updateRemoteInterpolation slerp deltaTime s)
              = Some (scale (normalize_v (add cur (scale (subtract target cur) k))) R)"
    unfolding k_def m_def Dv R
    using less_imp_le [OF dt] o t c far' by (rule starved_tick_far)
  have t': "targetPosition (updateRemoteInterpolation slerp deltaTime s) = Some target"
    by (rule updateRemoteInterpolation_fields(3) [OF t c])
  have D'v: "D' = length_v (subtract target
                     (scale (normalize_v (add cur (scale (subtract target cur) k))) R))"
    by (simp add: D' distanceToTarget_def t' c')
  note pr = reproject_progress [OF less_imp_le [OF k0] k1 lc lt R0 Dv D'v]
  show DR: "D \<le> 2 * R" by (rule pr(1))
  have K': "\<kappa> = min (1 / 4) (m / (2 * R))"
    by (simp add: K m_def)
  show \<kappa>0: "0 < \<kappa>" using m R0 by (simp add: K')
  show "\<kappa> \<le> 1 / 4" unfolding K' by (rule min.cobounded1)
  have "m / (2 * R) \<le> m / D"
    using DR p m by (intro divide_left_mono) simp_all
  then have \<kappa>k: "\<kappa> \<le> k"
    unfolding K' k_def by (rule min.mono [OF order_refl])
  show "D' < D" if "D < 2 * R"
    using k0 p that by (rule pr(2))
  show "D' * D' \<le> (1 - \<kappa>) * (D * D)" if "D * D \<le> 2 * (R * R)"
  proof -
    have "D' * D' \<le> (1 - k) * (D * D)"
      using that by (rule pr(3))
    moreover have "(1 - k) * (D * D) \<le> (1 - \<kappa>) * (D * D)"
      using \<kappa>k by (intro mult_right_mono) simp_all
    ultimately show ?thesis by linarith
  qed
  show "D' * D' \<le> 2 * (R * R) \<or>
        (1 + \<kappa> * \<kappa> / 2) * (4 * (R * R) - D * D) \<le> 4 * (R * R) - D' * D'"
    if "2 * (R * R) < D * D"
  proof -
    have "D' * D' \<le> 2 * (R * R) \<or>
          (1 + k * k / 2) * (4 * (R * R) - D * D) \<le> 4 * (R * R) - D' * D'"
      using that by (rule pr(4))
    then show ?thesis
    proof
      assume "D' * D' \<le> 2 * (R * R)"
      then show ?thesis ..
    next
      assume a: "(1 + k * k / 2) * (4 * (R * R) - D * D) \<le> 4 * (R * R) - D' * D'"
      have "D * D \<le> (2 * R) * (2 * R)"
        using DR DR p by (intro mult_mono) simp_all
      then have x: "0 \<le> 4 * (R * R) - D * D" by simp
      have "\<kappa> * \<kappa> \<le> k * k"
        using \<kappa>k \<kappa>k \<kappa>0 k0 by (intro mult_mono) simp_all
      then have "1 + \<kappa> * \<kappa> / 2 \<le> 1 + k * k / 2" by simp
      then have "(1 + \<kappa> * \<kappa> / 2) * (4 * (R * R) - D * D)
                   \<le> (1 + k * k / 2) * (4 * (R * R) - D * D)"
        using x by (rule mult_right_mono)
      then have "(1 + \<kappa> * \<kappa> / 2) * (4 * (R * R) - D * D) \<le> 4 * (R * R) - D' * D'"
        using a by linarith
      then show ?thesis ..
    qed
  qed
qed

lemma distanceToTarget_nonneg: "0 \<le> distanceToTarget s"
  by (simp add: distanceToTarget_def length_v_nonneg split: option.splits)

lemma starved_within:
  assumes o: "onTargetSphere s" and near: "distanceToTarget s \<le> 0.0001"
  shows "currentInterpolatedPosition (updateRemoteInterpolation slerp deltaTime s)
           = currentInterpolatedPosition s"
proof -
  obtain target cur where t: "targetPosition s = Some target"
    and c: "currentInterpolatedPosition s = Some cur"
    using o by (auto simp: onTargetSphere_def split: option.splits)
  have "\<not> length_v (subtract target cur) > 0.0001"
    using near by (simp add: distanceToTarget_def t c not_less)
  then show ?thesis
    by (simp only: updateRemoteInterpolation_fields(2) [OF t c] if_False c)
qed

lemma starved_antimono:
  assumes dt: "0 \<le> deltaTime" and o: "onTargetSphere s"
  shows "distanceToTarget ((updateRemoteInterpolation slerp deltaTime ^^ (n + j)) s)
           \<le> distanceToTarget ((updateRemoteInterpolation slerp deltaTime ^^ n) s)"
proof (induction j)
  case 0
  then show ?case by simp
next
  case (Suc j)
  have "onTargetSphere ((updateRemoteInterpolation slerp deltaTime ^^ (n + j)) s)"
    using starved_run [OF dt o, where slerp = slerp and n = "n + j"] by simp
  then have "distanceToTarget (updateRemoteInterpolation slerp deltaTime
                 ((updateRemoteInterpolation slerp deltaTime ^^ (n + j)) s))
               \<le> distanceToTarget ((updateRemoteInterpolation slerp deltaTime ^^ (n + j)) s)"
    by (rule starved_step(5) [OF dt])
  then show ?case using Suc by simp
qed

text \<open>
  Over the ticks of a remote player at rest in height, not opposite its target: a tick
  taken farther than the threshold from the target ends closer to it, and some tick ends
  within the threshold.
\<close>

lemma starved_arrival:
  assumes dt: "0 < deltaTime" and o: "onTargetSphere s"
    and a: "distanceToTarget s < 2 * (getBaseRadius + targetHeight s)"
  shows "0.0001 < distanceToTarget ((updateRemoteInterpolation slerp deltaTime ^^ n) s)
           \<Longrightarrow> distanceToTarget ((updateRemoteInterpolation slerp deltaTime ^^ Suc n) s)
                 < distanceToTarget ((updateRemoteInterpolation slerp deltaTime ^^ n) s)"
    and "\<exists>N. distanceToTarget ((updateRemoteInterpolation slerp deltaTime ^^ N) s) \<le> 0.0001"
proof -
  define R where "R = getBaseRadius + targetHeight s"
  define \<kappa> where "\<kappa> = min (1 / 4) (POSITION_INTERPOLATION_SPEED * deltaTime / (2 * R))"
  define D where "D n = distanceToTarget ((updateRemoteInterpolation slerp deltaTime ^^ n) s)"
    for n
  have dt0: "0 \<le> deltaTime" using dt by simp
  have run: "onTargetSphere ((updateRemoteInterpolation slerp deltaTime ^^ n) s)"
    and Rn: "R = getBaseRadius
                   + targetHeight ((updateRemoteInterpolation slerp deltaTime ^^ n) s)" for n
    using starved_run [OF dt0 o, where slerp = slerp and n = n] by (simp_all add: R_def)
  have Dn: "D n = distanceToTarget ((updateRemoteInterpolation slerp deltaTime ^^ n) s)" for n
    by (simp add: D_def)
  have DS: "D (Suc n) = distanceToTarget (updateRemoteInterpolation slerp deltaTime
                           ((updateRemoteInterpolation slerp deltaTime ^^ n) s))" for n
    by (simp add: D_def)
  note pr = starved_progress [OF dt run Rn \<kappa>_def Dn DS]
  have nonneg: "0 \<le> D n" for n
    by (simp add: D_def distanceToTarget_nonneg)
  have start: "D 0 < 2 * R"
    using a by (simp add: D_def R_def)
  have R0: "0 < R"
    using start nonneg [of 0] by simp
  have "0 < POSITION_INTERPOLATION_SPEED * deltaTime / (2 * R)"
    using dt R0 by (simp add: POSITION_INTERPOLATION_SPEED_def)
  then have \<kappa>0: "0 < \<kappa>" by (simp add: \<kappa>_def)
  have \<kappa>1: "\<kappa> \<le> 1 / 4" unfolding \<kappa>_def by (rule min.cobounded1)
  have mono: "D (Suc n) \<le> D n" for n
    using starved_step(5) [OF dt0 run [of n]] by (simp add: D_def)
  have "D (0 + n) \<le> D 0" for n
    unfolding D_def using dt0 o by (rule starved_antimono)
  then have "D n \<le> D 0" for n by simp
  then have below: "D n < 2 * R" for n
    using start by (rule order_le_less_trans)
  show "distanceToTarget ((updateRemoteInterpolation slerp deltaTime ^^ Suc n) s)
          < distanceToTarget ((updateRemoteInterpolation slerp deltaTime ^^ n) s)"
    if "0.0001 < distanceToTarget ((updateRemoteInterpolation slerp deltaTime ^^ n) s)"
    using that below [of n] pr(5) [of n] by (simp add: D_def)
  have "\<exists>N. D N \<le> 0.0001"
  proof (rule eventually_within [where R = R and \<kappa> = \<kappa> and D = D])
    show "0 < R" by (rule R0)
    show "0 < \<kappa>" by (rule \<kappa>0)
    show "\<kappa> \<le> 1 / 4" by (rule \<kappa>1)
    show "(0::real) < 0.0001" by simp
    show "0 \<le> D n" for n by (rule nonneg)
    show "D 0 < 2 * R" by (rule start)
    show "D (Suc n) \<le> D n" for n by (rule mono)
    show "D (Suc n) * D (Suc n) \<le> (1 - \<kappa>) * (D n * D n)"
      if "0.0001 < D n" and "D n * D n \<le> 2 * (R * R)" for n
      using that by (rule pr(6))
    show "D (Suc n) * D (Suc n) \<le> 2 * (R * R) \<or>
          (1 + \<kappa> * \<kappa> / 2) * (4 * (R * R) - D n * D n)
            \<le> 4 * (R * R) - D (Suc n) * D (Suc n)"
      if "0.0001 < D n" and "2 * (R * R) < D n * D n" for n
      using that by (rule pr(7))
  qed
  then show "\<exists>N. distanceToTarget ((updateRemoteInterpolation slerp deltaTime ^^ N) s)
                 \<le> 0.0001"
    by (simp only: D_def)
qed

text \<open>
  C5, as the code has it. A remote player at rest in height (the interpolated height has
  reached the target height, the target and the interpolated position lie at that
  height's radius) whose velocity estimate is absent or at most 0.001 long receives no new
  sample. Then over any number of ticks with \<open>deltaTime \<ge> 0\<close> the target and the estimate
  stay as they are, and every tick leaves the interpolated position no farther from the
  target than it was and not past it: the new position is the re-projection of a point
  at most a quarter of the way along the chord to the target. A tick that starts within
  0.0001 of the target leaves the position where it is. When moreover \<open>deltaTime > 0\<close> and
  the position does not start opposite the target (less than a diameter away), every tick
  that starts farther than 0.0001 from the target ends closer to it, and from some tick
  on the position is within 0.0001 of the target.
\<close>

theorem starvation_approaches_target:
  assumes "0 \<le> deltaTime" and "onTargetSphere s"
  shows "targetPosition ((updateRemoteInterpolation slerp deltaTime ^^ n) s) = targetPosition s \<and>
         estimatedVelocity ((updateRemoteInterpolation slerp deltaTime ^^ n) s)
           = estimatedVelocity s \<and>
         distanceToTarget ((updateRemoteInterpolation slerp deltaTime ^^ Suc n) s)
           \<le> distanceToTarget ((updateRemoteInterpolation slerp deltaTime ^^ n) s) \<and>
         (\<exists>k target cur. 0 \<le> k \<and> k \<le> 1 / 4 \<and> targetPosition s = Some target \<and>
            currentInterpolatedPosition ((updateRemoteInterpolation slerp deltaTime ^^ n) s)
              = Some cur \<and>
            currentInterpolatedPosition ((updateRemoteInterpolation slerp deltaTime ^^ Suc n) s)
              = Some (scale (normalize_v (add cur (scale (subtract target cur) k)))
                        (getBaseRadius + targetHeight s))) \<and>
         (distanceToTarget ((updateRemoteInterpolation slerp deltaTime ^^ n) s) \<le> 0.0001 \<longrightarrow>
            currentInterpolatedPosition ((updateRemoteInterpolation slerp deltaTime ^^ Suc n) s)
              = currentInterpolatedPosition ((updateRemoteInterpolation slerp deltaTime ^^ n) s)) \<and>
         (0 < deltaTime \<and> distanceToTarget s < 2 * (getBaseRadius + targetHeight s) \<longrightarrow>
            (0.0001 < distanceToTarget ((updateRemoteInterpolation slerp deltaTime ^^ n) s) \<longrightarrow>
               distanceToTarget ((updateRemoteInterpolation slerp deltaTime ^^ Suc n) s)
                 < distanceToTarget ((updateRemoteInterpolation slerp deltaTime ^^ n) s)) \<and>
            (\<exists>N. \<forall>m\<ge>N.
               distanceToTarget ((updateRemoteInterpolation slerp deltaTime ^^ m) s) \<le> 0.0001))"
proof -
  define sn where "sn = (updateRemoteInterpolation slerp deltaTime ^^ n) s"
  have r: "onTargetSphere sn" "targetPosition sn = targetPosition s"
    "estimatedVelocity sn = estimatedVelocity s" "targetHeight sn = targetHeight s"
    using starved_run [OF assms, where slerp = slerp and n = n] by (simp_all add: sn_def)
  obtain target cur where t: "targetPosition sn = Some target"
    and c: "currentInterpolatedPosition sn = Some cur"
    using r(1) by (auto simp: onTargetSphere_def split: option.splits)
  have n: "(updateRemoteInterpolation slerp deltaTime ^^ Suc n) s
             = updateRemoteInterpolation slerp deltaTime sn"
    by (simp add: sn_def)
  have d: "distanceToTarget (updateRemoteInterpolation slerp deltaTime sn) \<le> distanceToTarget sn"
    using starved_step(5) [OF assms(1) r(1)] .
  obtain k where k: "0 \<le> k" "k \<le> 1 / 4"
    and c': "currentInterpolatedPosition (updateRemoteInterpolation slerp deltaTime sn)
       = Some (scale (normalize_v (add cur (scale (subtract target cur) k)))
                 (getBaseRadius + targetHeight sn))"
    using starved_tick [OF assms(1) r(1) t c] by blast
  have ts: "targetPosition s = Some target"
    using r(2) t by simp
  have chord: "\<exists>k target cur. 0 \<le> k \<and> k \<le> 1 / 4 \<and> targetPosition s = Some target \<and>
            currentInterpolatedPosition sn = Some cur \<and>
            currentInterpolatedPosition (updateRemoteInterpolation slerp deltaTime sn)
              = Some (scale (normalize_v (add cur (scale (subtract target cur) k)))
                        (getBaseRadius + targetHeight s))"
    using k ts c c' r(4)
    by (intro exI [of _ k] exI [of _ target] exI [of _ cur]) simp
  have rest: "distanceToTarget sn \<le> 0.0001 \<longrightarrow>
            currentInterpolatedPosition (updateRemoteInterpolation slerp deltaTime sn)
              = currentInterpolatedPosition sn"
  proof
    assume "distanceToTarget sn \<le> 0.0001"
    with r(1) show "currentInterpolatedPosition (updateRemoteInterpolation slerp deltaTime sn)
                      = currentInterpolatedPosition sn"
      by (rule starved_within)
  qed
  have approach: "0 < deltaTime \<and> distanceToTarget s < 2 * (getBaseRadius + targetHeight s) \<longrightarrow>
            (0.0001 < distanceToTarget sn \<longrightarrow>
               distanceToTarget (updateRemoteInterpolation slerp deltaTime sn)
                 < distanceToTarget sn) \<and>
            (\<exists>N. \<forall>m\<ge>N.
               distanceToTarget ((updateRemoteInterpolation slerp deltaTime ^^ m) s) \<le> 0.0001)"
  proof (intro impI, elim conjE)
    assume dt: "0 < deltaTime"
      and a: "distanceToTarget s < 2 * (getBaseRadius + targetHeight s)"
    have strict: "0.0001 < distanceToTarget sn \<longrightarrow>
               distanceToTarget (updateRemoteInterpolation slerp deltaTime sn)
                 < distanceToTarget sn"
    proof
      assume "0.0001 < distanceToTarget sn"
      then show "distanceToTarget (updateRemoteInterpolation slerp deltaTime sn)
                   < distanceToTarget sn"
        unfolding n [symmetric] unfolding sn_def
        by (rule starved_arrival(1) [OF dt assms(2) a])
    qed
    from starved_arrival(2) [OF dt assms(2) a, where slerp = slerp]
    obtain N where N: "distanceToTarget ((updateRemoteInterpolation slerp deltaTime ^^ N) s)
                         \<le> 0.0001" ..
    have "distanceToTarget ((updateRemoteInterpolation slerp deltaTime ^^ m) s) \<le> 0.0001"
      if "N \<le> m" for m
    proof -
      have "distanceToTarget ((updateRemoteInterpolation slerp deltaTime ^^ (N + (m - N))) s)
              \<le> distanceToTarget ((updateRemoteInterpolation slerp deltaTime ^^ N) s)"
        using assms by (rule starved_antimono)
      then have "distanceToTarget ((updateRemoteInterpolation slerp deltaTime ^^ (N + (m - N))) s)
                   \<le> 0.0001"
        using N by (rule order_trans)
      moreover have "N + (m - N) = m" using that by simp
      ultimately show ?thesis by (simp only:)
    qed
    then have "\<forall>m\<ge>N.
        distanceToTarget ((updateRemoteInterpolation slerp deltaTime ^^ m) s) \<le> 0.0001"
      by (intro allI impI)
    then have "\<exists>N. \<forall>m\<ge>N.
        distanceToTarget ((updateRemoteInterpolation slerp deltaTime ^^ m) s) \<le> 0.0001"
      by (rule exI)
    with strict show "(0.0001 < distanceToTarget sn \<longrightarrow>
               distanceToTarget (updateRemoteInterpolation slerp deltaTime sn)
                 < distanceToTarget sn) \<and>
            (\<exists>N. \<forall>m\<ge>N.
               distanceToTarget ((updateRemoteInterpolation slerp deltaTime ^^ m) s) \<le> 0.0001)"
      by (rule conjI)
  qed
  show ?thesis
    unfolding n sn_def [symmetric]
  proof (intro conjI)
    show "targetPosition sn = targetPosition s" by (rule r(2))
    show "estimatedVelocity sn = estimatedVelocity s" by (rule r(3))
    show "distanceToTarget (updateRemoteInterpolation slerp deltaTime sn) \<le> distanceToTarget sn"
      by (rule d)
  qed (rule chord rest approach)+
qed

lemma driftingRemote_fields:
  "targetPosition driftingRemote = Some (Vector3 0 1.4 4.8)"
  "currentInterpolatedPosition driftingRemote = Some (Vector3 0 0 5)"
  "estimatedVelocity driftingRemote = Some (Vector3 0 (- 8.75) (- 0.75))"
  "remoteHeightAboveSurface driftingRemote = 1"
  "targetHeight driftingRemote = 1"
  by (simp_all add: driftingRemote_def newPlayer_def)

lemma restingRemote_onTargetSphere: "onTargetSphere restingRemote"
proof -
  have "length_v (Vector3 0 1.4 4.8) = 5"
    by (simp add: length_v_eq_iff)
  moreover have "length_v (Vector3 0 0 5) = 5"
    by (simp add: length_v_z)
  ultimately show ?thesis
    by (simp add: onTargetSphere_def restingRemote_def driftingRemote_fields getBaseRadius_def)
qed

lemma restingRemote_distance:
  "distanceToTarget restingRemote = length_v (Vector3 0 1.4 (- 0.2))"
  by (simp add: distanceToTarget_def restingRemote_def driftingRemote_fields subtract_def)

text \<open>
  The remote player at rest, five units from the centre and without a velocity
  estimate, \<open>sqrt 2\<close> away from its target: a tick of 16 ms takes it closer to the target,
  and from some tick on it is within 0.0001 of it.
\<close>

theorem starvation_approaches_target_witness:
  "(0::real) \<le> 0.016 \<and> onTargetSphere restingRemote \<and> (0::real) < 0.016 \<and>
   distanceToTarget restingRemote < 2 * (getBaseRadius + targetHeight restingRemote) \<and>
   0.0001 < distanceToTarget restingRemote \<and>
   distanceToTarget (updateRemoteInterpolation (\<lambda>a b t. b) 0.016 restingRemote)
     < distanceToTarget restingRemote \<and>
   (\<exists>N. \<forall>m\<ge>N.
      distanceToTarget ((updateRemoteInterpolation (\<lambda>a b t. b) 0.016 ^^ m) restingRemote)
        \<le> 0.0001)"
proof -
  have z: "(0::real) \<le> 0.016" and p: "(0::real) < 0.016" by simp_all
  have "length_v (Vector3 0 1.4 (- 0.2)) \<le> 2"
    using length_v_le_iff [of 2 "Vector3 0 1.4 (- 0.2)"] by simp
  moreover have "targetHeight restingRemote = 1"
    by (simp add: restingRemote_def driftingRemote_fields)
  ultimately have a: "distanceToTarget restingRemote
                        < 2 * (getBaseRadius + targetHeight restingRemote)"
    unfolding restingRemote_distance getBaseRadius_def by simp
  have f: "0.0001 < distanceToTarget restingRemote"
    unfolding restingRemote_distance
    using length_v_less_iff [of "0.0001" "Vector3 0 1.4 (- 0.2)"] by simp
  show ?thesis
    using z p a f restingRemote_onTargetSphere
      starvation_approaches_target
        [OF z restingRemote_onTargetSphere, where slerp = "\<lambda>a b t. b" and n = 0]
    by simp
qed

lemma driftingRemote_tick:
  "currentInterpolatedPosition (updateRemoteInterpolation slerp 0.1 driftingRemote)
     = Some (Vector3 0 (- 1.4) 4.8)"
proof -
  have h: "remoteHeightAboveSurface (interpolateHeight 0.1 driftingRemote) = 1"
    by (simp add: interpolateHeight_def driftingRemote_fields)
  have d: "subtract (Vector3 0 1.4 4.8) (Vector3 0 0 5) = Vector3 0 1.4 (- 0.2)"
    by (simp add: subtract_def)
  have far: "length_v (Vector3 0 1.4 (- 0.2)) > 0.0001"
    using length_v_less_iff [of "0.0001" "Vector3 0 1.4 (- 0.2)"] by simp
  have v: "length_v (Vector3 0 (- 8.75) (- 0.75)) > 0.001"
    using length_v_less_iff [of "0.001" "Vector3 0 (- 8.75) (- 0.75)"] by simp
  have mv1: "add (scale (Vector3 0 1.4 (- 0.2)) (min 1.0 SMOOTHING_FACTOR))
               (scale (Vector3 0 (- 8.75) (- 0.75)) 0.2) = Vector3 0 (- 1.4) (- 0.2)"
    by (simp add: add_def scale_def SMOOTHING_FACTOR_def)
  have cap: "\<not> length_v (Vector3 0 (- 1.4) (- 0.2)) > POSITION_INTERPOLATION_SPEED * 0.1"
    using length_v_le_iff [of "1.5" "Vector3 0 (- 1.4) (- 0.2)"]
    by (simp add: POSITION_INTERPOLATION_SPEED_def not_less)
  have m: "moveVector (POSITION_INTERPOLATION_SPEED * 0.1) (Vector3 0 1.4 (- 0.2))
             (Some (Vector3 0 (- 8.75) (- 0.75))) = Vector3 0 (- 1.4) (- 0.2)"
    unfolding moveVector_def Let_def option.case
    by (simp only: v if_True mv1 cap if_False)
  have a: "add (Vector3 0 0 5) (Vector3 0 (- 1.4) (- 0.2)) = Vector3 0 (- 1.4) 4.8"
    by (simp add: add_def)
  have l: "length_v (Vector3 0 (- 1.4) 4.8) = 5"
    by (simp add: length_v_eq_iff)
  have n: "scale (normalize_v (Vector3 0 (- 1.4) 4.8)) (getBaseRadius + 1) = Vector3 0 (- 1.4) 4.8"
    unfolding normalize_scale l by (simp add: scale_def getBaseRadius_def)
  show ?thesis
    unfolding updateRemoteInterpolation_fields(2)
                [OF driftingRemote_fields(1) driftingRemote_fields(2)]
      d driftingRemote_fields(3) m a h n
    using far by simp
qed

text \<open>
  A tick of a remote player that has no target rotation and is at rest in height is its
  position block.
\<close>

lemma updateRemoteInterpolation_still:
  assumes t: "targetPosition s = Some target" and c: "currentInterpolatedPosition s = Some cur"
    and r: "targetRotation s = None" and h: "remoteHeightAboveSurface s = targetHeight s"
  shows "updateRemoteInterpolation slerp deltaTime s = interpolatePosition deltaTime target cur s"
proof -
  have s1: "s\<lparr>currentInterpolatedPosition := Some cur\<rparr> = s"
    using c by simp
  have "targetRotation (interpolatePosition deltaTime target cur s) = None"
    using r by (simp add: interpolatePosition_def Let_def)
  then have "interpolateRotation slerp deltaTime (interpolatePosition deltaTime target cur s)
               = interpolatePosition deltaTime target cur s"
    by (simp add: interpolateRotation_def split: option.splits)
  then show ?thesis
    unfolding updateRemoteInterpolation_def Let_def t c option.case s1
    by (simp add: r interpolateHeight_rest [OF h])
qed

lemma antipodalRemote_fields:
  "targetPosition antipodalRemote = Some (Vector3 0 0 (- 5))"
  "currentInterpolatedPosition antipodalRemote = Some (Vector3 0 0 5)"
  "position antipodalRemote = Vector3 0 0 5"
  "estimatedVelocity antipodalRemote = None"
  "targetRotation antipodalRemote = None"
  "remoteHeightAboveSurface antipodalRemote = 1"
  "targetHeight antipodalRemote = 1"
  by (simp_all add: antipodalRemote_def restingRemote_def driftingRemote_def newPlayer_def)

lemma antipodalRemote_fixed:
  "updateRemoteInterpolation slerp 0.016 antipodalRemote = antipodalRemote"
proof -
  have d: "subtract (Vector3 0 0 (- 5)) (Vector3 0 0 5) = Vector3 0 0 (- 10)"
    by (simp add: subtract_def)
  have far: "length_v (Vector3 0 0 (- 10)) > 0.0001"
    by (simp add: length_v_z)
  have mv1: "scale (Vector3 0 0 (- 10)) (min 1.0 SMOOTHING_FACTOR) = Vector3 0 0 (- 2.5)"
    by (simp add: scale_def SMOOTHING_FACTOR_def)
  have cap: "length_v (Vector3 0 0 (- 2.5)) > POSITION_INTERPOLATION_SPEED * 0.016"
    by (simp add: length_v_z POSITION_INTERPOLATION_SPEED_def)
  have c: "scale (normalize_v (Vector3 0 0 (- 2.5))) (POSITION_INTERPOLATION_SPEED * 0.016)
             = Vector3 0 0 (- 0.24)"
    by (simp add: normalize_z scale_def POSITION_INTERPOLATION_SPEED_def)
  have m: "moveVector (POSITION_INTERPOLATION_SPEED * 0.016) (Vector3 0 0 (- 10)) None
             = Vector3 0 0 (- 0.24)"
    unfolding moveVector_def Let_def option.case
    by (simp only: mv1 cap if_True c)
  have a: "add (Vector3 0 0 5) (Vector3 0 0 (- 0.24)) = Vector3 0 0 4.76"
    by (simp add: add_def)
  have n: "scale (normalize_v (Vector3 0 0 4.76)) (getBaseRadius + 1) = Vector3 0 0 5"
    by (simp add: normalize_z scale_def getBaseRadius_def)
  have "interpolatePosition 0.016 (Vector3 0 0 (- 5)) (Vector3 0 0 5) antipodalRemote
          = antipodalRemote\<lparr>currentInterpolatedPosition := Some (Vector3 0 0 5),
                             position := Vector3 0 0 5\<rparr>"
    unfolding interpolatePosition_def Let_def d antipodalRemote_fields(4,6) m a n
    using far by simp
  also have "\<dots> = antipodalRemote"
    using antipodalRemote_fields(2,3) by simp
  finally show ?thesis
    by (simp only: updateRemoteInterpolation_still
          [OF antipodalRemote_fields(1) antipodalRemote_fields(2) antipodalRemote_fields(5)
              trans [OF antipodalRemote_fields(6) antipodalRemote_fields(7) [symmetric]]])
qed

lemma antipodalRemote_onTargetSphere: "onTargetSphere antipodalRemote"
  by (simp add: onTargetSphere_def antipodalRemote_fields length_v_z getBaseRadius_def)

lemma antipodalRemote_distance: "distanceToTarget antipodalRemote = 10"
  by (simp add: distanceToTarget_def antipodalRemote_fields subtract_def length_v_z)

lemma nearbyRemote_fields:
  "targetPosition nearbyRemote
     = Some (Vector3 0 (1000000 / 10000000001) (49999999995 / 10000000001))"
  "currentInterpolatedPosition nearbyRemote = Some (Vector3 0 0 5)"
  "estimatedVelocity nearbyRemote = None"
  "targetRotation nearbyRemote = None"
  "remoteHeightAboveSurface nearbyRemote = 1"
  "targetHeight nearbyRemote = 1"
  by (simp_all add: nearbyRemote_def restingRemote_def driftingRemote_def newPlayer_def)

lemma nearbyRemote_offset:
  "subtract (Vector3 0 (1000000 / 10000000001) (49999999995 / 10000000001)) (Vector3 0 0 5)
     = Vector3 0 (1000000 / 10000000001) (- 10 / 10000000001)"
  by (simp add: subtract_def)

lemma nearbyRemote_near:
  "length_v (Vector3 0 (1000000 / 10000000001) (- 10 / 10000000001)) \<le> 0.0001"
  "0 < length_v (Vector3 0 (1000000 / 10000000001) (- 10 / 10000000001))"
proof -
  show "length_v (Vector3 0 (1000000 / 10000000001) (- 10 / 10000000001)) \<le> 0.0001"
    using length_v_le_iff
      [of "0.0001" "Vector3 0 (1000000 / 10000000001) (- 10 / 10000000001)"]
    by simp
  have "Vector3 0 (1000000 / 10000000001) (- 10 / 10000000001) \<noteq> Zero"
    by (simp add: Zero_def)
  then show "0 < length_v (Vector3 0 (1000000 / 10000000001) (- 10 / 10000000001))"
    using length_v_eq_0 [of "Vector3 0 (1000000 / 10000000001) (- 10 / 10000000001)"]
      length_v_nonneg [of "Vector3 0 (1000000 / 10000000001) (- 10 / 10000000001)"]
    by simp
qed

lemma nearbyRemote_onTargetSphere: "onTargetSphere nearbyRemote"
proof -
  have "length_v (Vector3 0 (1000000 / 10000000001) (49999999995 / 10000000001)) = 5"
    by (simp add: length_v_eq_iff)
  moreover have "length_v (Vector3 0 0 5) = 5"
    by (simp add: length_v_z)
  ultimately show ?thesis
    by (simp add: onTargetSphere_def nearbyRemote_fields getBaseRadius_def)
qed

lemma nearbyRemote_fixed:
  "updateRemoteInterpolation slerp 0.016 nearbyRemote = nearbyRemote"
proof -
  have "\<not> length_v (Vector3 0 (1000000 / 10000000001) (- 10 / 10000000001)) > 0.0001"
    using nearbyRemote_near(1) by (simp add: not_less)
  then have "interpolatePosition 0.016
               (Vector3 0 (1000000 / 10000000001) (49999999995 / 10000000001))
               (Vector3 0 0 5) nearbyRemote = nearbyRemote"
    unfolding interpolatePosition_def Let_def nearbyRemote_offset by simp
  then show ?thesis
    by (simp only: updateRemoteInterpolation_still
          [OF nearbyRemote_fields(1) nearbyRemote_fields(2) nearbyRemote_fields(4)
              trans [OF nearbyRemote_fields(5) nearbyRemote_fields(6) [symmetric]]])
qed

lemma climbingRemote_fields:
  "targetPosition climbingRemote = Some (Vector3 0 0 4.7)"
  "currentInterpolatedPosition climbingRemote = Some (Vector3 0 0 4.69)"
  "estimatedVelocity climbingRemote = None"
  "remoteHeightAboveSurface climbingRemote = 0.69"
  "targetHeight climbingRemote = 0.7"
  "estimatedVerticalVelocity climbingRemote = 3"
  by (simp_all add: climbingRemote_def newPlayer_def)

lemma climbingRemote_tick:
  "currentInterpolatedPosition (updateRemoteInterpolation slerp 0.016 climbingRemote)
     = Some (Vector3 0 0 4.716)"
proof -
  have h: "remoteHeightAboveSurface (interpolateHeight 0.016 climbingRemote) = 0.716"
    by (simp add: interpolateHeight_def climbingRemote_fields HEIGHT_SMOOTHING_FACTOR_def)
  have d: "subtract (Vector3 0 0 4.7) (Vector3 0 0 4.69) = Vector3 0 0 0.01"
    by (simp add: subtract_def)
  have far: "length_v (Vector3 0 0 0.01) > 0.0001"
    by (simp add: length_v_z)
  have mv1: "scale (Vector3 0 0 0.01) (min 1.0 SMOOTHING_FACTOR) = Vector3 0 0 0.0025"
    by (simp add: scale_def SMOOTHING_FACTOR_def)
  have cap: "\<not> length_v (Vector3 0 0 0.0025) > POSITION_INTERPOLATION_SPEED * 0.016"
    by (simp add: length_v_z POSITION_INTERPOLATION_SPEED_def)
  have m: "moveVector (POSITION_INTERPOLATION_SPEED * 0.016) (Vector3 0 0 0.01) None
             = Vector3 0 0 0.0025"
    unfolding moveVector_def Let_def option.case
    by (simp only: mv1 cap if_False)
  have a: "add (Vector3 0 0 4.69) (Vector3 0 0 0.0025) = Vector3 0 0 4.6925"
    by (simp add: add_def)
  have n: "scale (normalize_v (Vector3 0 0 4.6925)) (getBaseRadius + 0.716) = Vector3 0 0 4.716"
    by (simp add: normalize_z scale_def getBaseRadius_def)
  show ?thesis
    unfolding updateRemoteInterpolation_fields(2)
                [OF climbingRemote_fields(1) climbingRemote_fields(2)]
      d climbingRemote_fields(3) m a h n
    using far by simp
qed

lemma climbingRemote_distance:
  "distanceToTarget climbingRemote = 0.01"
  "distanceToTarget (updateRemoteInterpolation slerp 0.016 climbingRemote) = 0.016"
proof -
  show "distanceToTarget climbingRemote = 0.01"
    by (simp add: distanceToTarget_def climbingRemote_fields subtract_def length_v_z)
  have t: "targetPosition (updateRemoteInterpolation slerp 0.016 climbingRemote)
             = Some (Vector3 0 0 4.7)"
    by (rule updateRemoteInterpolation_fields(3)
          [OF climbingRemote_fields(1) climbingRemote_fields(2)])
  show "distanceToTarget (updateRemoteInterpolation slerp 0.016 climbingRemote) = 0.016"
    unfolding distanceToTarget_def t climbingRemote_tick
    by (simp add: subtract_def length_v_z)
qed

text \<open>
  Against C5 as stated (with target and velocity estimate held fixed, every tick moves
  the position closer to the target, which it approaches). The remote player with the
  velocity estimate, \<open>sqrt 2\<close> away from its target, is 2.8 away from it after a tick of a
  tenth of a second, with the same target and the same estimate. Without a velocity
  estimate: the player opposite its target is left as it is by a tick of 16 ms, ten units
  from the target; so is the player less than 0.0001 from its target, at a distance that
  is not zero; and the player below its target with the vertical velocity estimate is
  taken from 0.01 to 0.016 away from the target.
\<close>

theorem starvation_monotone_counterexample:
  "targetPosition driftingRemote = Some (Vector3 0 1.4 4.8) \<and>
   currentInterpolatedPosition driftingRemote = Some (Vector3 0 0 5) \<and>
   targetPosition (updateRemoteInterpolation (\<lambda>a b t. b) 0.1 driftingRemote)
     = targetPosition driftingRemote \<and>
   estimatedVelocity (updateRemoteInterpolation (\<lambda>a b t. b) 0.1 driftingRemote)
     = estimatedVelocity driftingRemote \<and>
   currentInterpolatedPosition (updateRemoteInterpolation (\<lambda>a b t. b) 0.1 driftingRemote)
     = Some (Vector3 0 (- 1.4) 4.8) \<and>
   length_v (subtract (Vector3 0 1.4 4.8) (Vector3 0 0 5)) < 2 \<and>
   length_v (subtract (Vector3 0 1.4 4.8) (Vector3 0 (- 1.4) 4.8)) = 2.8 \<and>
   distanceToTarget driftingRemote
     < distanceToTarget (updateRemoteInterpolation (\<lambda>a b t. b) 0.1 driftingRemote) \<and>
   onTargetSphere antipodalRemote \<and>
   distanceToTarget antipodalRemote = 10 \<and>
   updateRemoteInterpolation (\<lambda>a b t. b) 0.016 antipodalRemote = antipodalRemote \<and>
   onTargetSphere nearbyRemote \<and>
   0 < distanceToTarget nearbyRemote \<and>
   updateRemoteInterpolation (\<lambda>a b t. b) 0.016 nearbyRemote = nearbyRemote \<and>
   estimatedVelocity climbingRemote = None \<and>
   distanceToTarget climbingRemote = 0.01 \<and>
   distanceToTarget (updateRemoteInterpolation (\<lambda>a b t. b) 0.016 climbingRemote) = 0.016"
proof -
  have o: "length_v (subtract (Vector3 0 1.4 4.8) (Vector3 0 0 5)) < 2"
    using length_v_le_iff [of "3 / 2" "subtract (Vector3 0 1.4 4.8) (Vector3 0 0 5)"]
    by (simp add: subtract_def)
  have n: "length_v (subtract (Vector3 0 1.4 4.8) (Vector3 0 (- 1.4) 4.8)) = 2.8"
    using length_v_eq_iff [of "2.8" "subtract (Vector3 0 1.4 4.8) (Vector3 0 (- 1.4) 4.8)"]
    by (simp add: subtract_def)
  have t: "targetPosition (updateRemoteInterpolation (\<lambda>a b t. b) 0.1 driftingRemote)
             = Some (Vector3 0 1.4 4.8)"
    and e: "estimatedVelocity (updateRemoteInterpolation (\<lambda>a b t. b) 0.1 driftingRemote)
             = estimatedVelocity driftingRemote"
    by (simp_all only: updateRemoteInterpolation_fields
          [OF driftingRemote_fields(1) driftingRemote_fields(2)])
  have "distanceToTarget driftingRemote
          < distanceToTarget (updateRemoteInterpolation (\<lambda>a b t. b) 0.1 driftingRemote)"
    unfolding distanceToTarget_def t driftingRemote_fields driftingRemote_tick
    using o n by simp
  then have drifting:
    "targetPosition driftingRemote = Some (Vector3 0 1.4 4.8) \<and>
     currentInterpolatedPosition driftingRemote = Some (Vector3 0 0 5) \<and>
     targetPosition (updateRemoteInterpolation (\<lambda>a b t. b) 0.1 driftingRemote)
       = targetPosition driftingRemote \<and>
     estimatedVelocity (updateRemoteInterpolation (\<lambda>a b t. b) 0.1 driftingRemote)
       = estimatedVelocity driftingRemote \<and>
     currentInterpolatedPosition (updateRemoteInterpolation (\<lambda>a b t. b) 0.1 driftingRemote)
       = Some (Vector3 0 (- 1.4) 4.8) \<and>
     length_v (subtract (Vector3 0 1.4 4.8) (Vector3 0 0 5)) < 2 \<and>
     length_v (subtract (Vector3 0 1.4 4.8) (Vector3 0 (- 1.4) 4.8)) = 2.8 \<and>
     distanceToTarget driftingRemote
       < distanceToTarget (updateRemoteInterpolation (\<lambda>a b t. b) 0.1 driftingRemote)"
    using o n t e driftingRemote_tick [of "\<lambda>a b t. b"] driftingRemote_fields(1,2) by simp
  have near: "0 < distanceToTarget nearbyRemote"
    using nearbyRemote_near(2)
    by (simp add: distanceToTarget_def nearbyRemote_fields nearbyRemote_offset)
  show ?thesis
    using drifting antipodalRemote_onTargetSphere antipodalRemote_distance
      antipodalRemote_fixed [of "\<lambda>a b t. b"]
      nearbyRemote_onTargetSphere near nearbyRemote_fixed [of "\<lambda>a b t. b"]
      climbingRemote_fields(3) climbingRemote_distance(1)
      climbingRemote_distance(2) [of "\<lambda>a b t. b"]
    by (simp only: simp_thms)
qed

end
